theory Spec2Isabelle
  imports Complex_Main "HOL-Library.Monad_Syntax"
begin

section \<open>The iOptron telescope driver: response decoder and coordinate encoder\<close>

text \<open>
  A shallow embedding of the protocol logic of
  \<^verbatim>\<open>src/drivers/iOptron/Telescope/telescopedriver_iOptron.cpp\<close>.

  Conventions of the model.
  \<^item> A C string (\<^verbatim>\<open>char *dataBuffer\<close>) is the list of its characters before the
    terminating NUL, so \<^verbatim>\<open>strlen\<close> is \<open>length\<close>. Every frame the driver decodes lives
    in its 500-byte \<^verbatim>\<open>returnBuffer\<close>, so the conversion of \<^verbatim>\<open>strlen\<close> to \<^verbatim>\<open>int\<close> is exact.
  \<^item> Every function that reads the frame by index returns an \<open>option\<close>. \<open>None\<close>
    means that the C program has left defined ground: it would read a byte at or beyond
    the length of the frame, or have \<^verbatim>\<open>atoi\<close> or \<^verbatim>\<open>atoll\<close> read a number that the
    integer type cannot hold. A loop that does not end gives \<open>None\<close> as well.
  \<^item> A \<^verbatim>\<open>double\<close> is modelled by the real number it stands for. In the coordinate
    encoder and in the two sexagesimal parsers every operation on doubles rounds its exact
    result to binary64. The position decoder divides an integer of at most 9 digits once
    by a constant; there the model keeps the exact quotient, of which the stored
    \<^verbatim>\<open>double\<close> is the nearest one, and the range tests decide alike.
\<close>

subsection \<open>C strings and the C library\<close>

text \<open>An indexed read \<^verbatim>\<open>dataBuffer[i]\<close>; \<open>None\<close> at and beyond the length of the frame.\<close>

definition rd :: "string \<Rightarrow> nat \<Rightarrow> char option" where
  "rd s i = (if i < length s then Some (s ! i) else None)"

text \<open>
  \<^verbatim>\<open>strncpy(dst, &src[i], n); dst[n] = 0\<close>: the \<open>n\<close> characters from offset \<open>i\<close>. The
  copy stays inside the frame exactly when all \<open>n\<close> characters exist.
\<close>

definition strncpy_from :: "string \<Rightarrow> nat \<Rightarrow> nat \<Rightarrow> string option" where
  "strncpy_from src i n = (if i + n \<le> length src then Some (take n (drop i src)) else None)"

text \<open>
  A moving \<^verbatim>\<open>char *charPtr\<close> is modelled by the rest of the string from the pointer on;
  \<^verbatim>\<open>*charPtr\<close> at the end of the string is the terminating NUL.
\<close>

definition deref :: "string \<Rightarrow> char" where
  "deref p = (case p of [] \<Rightarrow> CHR 0x00 | c # _ \<Rightarrow> c)"

definition isdigit :: "char \<Rightarrow> bool" where
  "isdigit c = (48 \<le> (of_char c :: nat) \<and> (of_char c :: nat) \<le> 57)"

definition isspace :: "char \<Rightarrow> bool" where
  "isspace c = ((of_char c :: nat) = 32 \<or> (9 \<le> (of_char c :: nat) \<and> (of_char c :: nat) \<le> 13))"

text \<open>\<^verbatim>\<open>while (isdigit(*charPtr)) charPtr++;\<close>\<close>

fun skip_digits :: "string \<Rightarrow> string" where
  "skip_digits [] = []"
| "skip_digits (c # cs) = (if isdigit c then skip_digits cs else c # cs)"

text \<open>The digit loop of \<^verbatim>\<open>strtol\<close>: it stops at the first character that is no digit.\<close>

fun digits_val :: "int \<Rightarrow> string \<Rightarrow> int" where
  "digits_val acc [] = acc"
| "digits_val acc (c # cs) =
     (if isdigit c then digits_val (10 * acc + (of_char c - 48)) cs else acc)"

text \<open>
  The number \<^verbatim>\<open>atoi\<close> and \<^verbatim>\<open>atoll\<close> read: white space is skipped, one sign is
  accepted, then the digits. No digit at all gives 0.
\<close>

definition strtol_val :: "string \<Rightarrow> int" where
  "strtol_val s =
     (case dropWhile isspace s of
        [] \<Rightarrow> 0
      | c # cs \<Rightarrow>
          if c = CHR ''-'' then - digits_val 0 cs
          else if c = CHR ''+'' then digits_val 0 cs
          else digits_val 0 (c # cs))"

text \<open>C leaves \<^verbatim>\<open>atoi\<close> and \<^verbatim>\<open>atoll\<close> undefined when the number does not fit.\<close>

definition atoi :: "string \<Rightarrow> int option" where
  "atoi s = (let v = strtol_val s in if - (2 ^ 31) \<le> v \<and> v < 2 ^ 31 then Some v else None)"

definition atoll :: "string \<Rightarrow> int option" where
  "atoll s = (let v = strtol_val s in if - (2 ^ 63) \<le> v \<and> v < 2 ^ 63 then Some v else None)"

definition digit_char :: "nat \<Rightarrow> char" where
  "digit_char d = ''0123456789'' ! d"

fun decimal :: "nat \<Rightarrow> string" where
  "decimal n = (if n < 10 then [digit_char n] else decimal (n div 10) @ [digit_char (n mod 10)])"

declare decimal.simps [simp del]

definition zero_pad :: "nat \<Rightarrow> string \<Rightarrow> string" where
  "zero_pad w ds = replicate (w - length ds) CHR ''0'' @ ds"

text \<open>\<^verbatim>\<open>sprintf\<close> with the conversion \<^verbatim>\<open>%0<w>lld\<close>: the sign counts towards the width.\<close>

definition sprintf_0lld :: "nat \<Rightarrow> int \<Rightarrow> string" where
  "sprintf_0lld w n =
     (if n < 0 then CHR ''-'' # zero_pad (w - 1) (decimal (nat (- n)))
      else zero_pad w (decimal (nat n)))"

subsection \<open>Doubles\<close>

text \<open>
  Rounding to binary64: to the nearest double, a tie to the one with the even
  significand. \<open>scale_down\<close> and \<open>scale_up\<close> halve or double the magnitude until it
  lies between \<open>2 ^ 52\<close> and \<open>2 ^ 53\<close>, where the doubles are the whole numbers;
  \<open>scale_up\<close> stops at the exponent -1074 of the subnormal numbers. A magnitude above the
  largest double is not made infinite, it keeps its size.
\<close>

definition round_half_even :: "real \<Rightarrow> int" where
  "round_half_even y =
     (let n = \<lfloor>y\<rfloor>; r = y - of_int n in
      if r < 1 / 2 then n else if r > 1 / 2 then n + 1 else if even n then n else n + 1)"

function scale_down :: "real \<Rightarrow> int \<Rightarrow> real \<times> int" where
  "scale_down y e = (if y \<ge> 2 ^ 53 then scale_down (y / 2) (e + 1) else (y, e))"
  by pat_completeness auto
termination
proof (relation "measure (\<lambda>(y, e). nat \<lfloor>y\<rfloor>)")
  show "wf (measure (\<lambda>(y::real, e::int). nat \<lfloor>y\<rfloor>))" by simp
next
  fix y :: real and e :: int
  assume "2 ^ 53 \<le> y"
  then have big: "4 \<le> y" by simp
  then have "of_int \<lfloor>y / 2\<rfloor> \<le> y / 2" and "y / 2 < y - 1" and "y - 1 < of_int \<lfloor>y\<rfloor>"
    by linarith+
  then have "real_of_int \<lfloor>y / 2\<rfloor> < of_int \<lfloor>y\<rfloor>" and "0 < \<lfloor>y\<rfloor>"
    using big by linarith+
  then have "\<lfloor>y / 2\<rfloor> < \<lfloor>y\<rfloor>" and "0 < \<lfloor>y\<rfloor>" by simp_all
  then show "((y / 2, e + 1), (y, e)) \<in> measure (\<lambda>(y, e). nat \<lfloor>y\<rfloor>)" by simp
qed

declare scale_down.simps [simp del]

function scale_up :: "real \<Rightarrow> int \<Rightarrow> real \<times> int" where
  "scale_up y e = (if y < 2 ^ 52 \<and> e > - 1074 then scale_up (2 * y) (e - 1) else (y, e))"
  by pat_completeness auto
termination
  by (relation "measure (\<lambda>(y, e). nat (e + 1074))") auto

declare scale_up.simps [simp del]

definition pow2 :: "int \<Rightarrow> real" where
  "pow2 e = (if e \<ge> 0 then 2 ^ nat e else 1 / 2 ^ nat (- e))"

definition binary64 :: "real \<Rightarrow> real" where
  "binary64 x =
     (if x = 0 then 0
      else
        let (y, e) = scale_down \<bar>x\<bar> 0;
            (y, e) = scale_up y e;
            m = of_int (round_half_even y) * pow2 e
        in if x < 0 then - m else m)"

text \<open>The four operations on doubles: the exact result, rounded.\<close>

definition dbl_add :: "real \<Rightarrow> real \<Rightarrow> real" where
  "dbl_add x y = binary64 (x + y)"

definition dbl_sub :: "real \<Rightarrow> real \<Rightarrow> real" where
  "dbl_sub x y = binary64 (x - y)"

definition dbl_mul :: "real \<Rightarrow> real \<Rightarrow> real" where
  "dbl_mul x y = binary64 (x * y)"

definition dbl_div :: "real \<Rightarrow> real \<Rightarrow> real" where
  "dbl_div x y = binary64 (x / y)"

text \<open>
  \<^verbatim>\<open>(int64_t) x\<close> for a double \<open>x\<close>: truncation towards zero. When the truncated value
  does not fit, C leaves the conversion undefined; the conversion instruction of x86-64
  then delivers \<open>- 2 ^ 63\<close>, and so does the model.
\<close>

definition trunc :: "real \<Rightarrow> int" where
  "trunc x = (if 0 \<le> x then \<lfloor>x\<rfloor> else \<lceil>x\<rceil>)"

definition double_to_int64 :: "real \<Rightarrow> int" where
  "double_to_int64 x =
     (let t = trunc x in if - (2 ^ 63) \<le> t \<and> t < 2 ^ 63 then t else - (2 ^ 63))"

subsection \<open>The state of the driver\<close>

datatype TYPE_DriveRates =
  kDriveRate_driveSidereal | kDriveRate_driveLunar | kDriveRate_driveSolar | kDriveRate_driveKing

datatype DeviceConnectionType = kDevCon_Ethernet | kDevCon_USB | kDevCon_Serial | kDevCon_Custom

datatype TYPE_ASCOM_STATUS = kASCOM_Err_Success | kASCOM_Err_NotConnected

text \<open>
  The members of \<^verbatim>\<open>TelescopeDriveriOptron\<close> that the decoder, the encoder and the poll
  cycle read or write. The first six are fields of \<^verbatim>\<open>cTelescopeProp\<close>, \<open>Connected\<close> is
  \<^verbatim>\<open>cCommonProp.Connected\<close>. The command queue (\<^verbatim>\<open>cCmdQueue\<close> with \<^verbatim>\<open>cQueuedCmdCnt\<close>) is
  the list of the queued command strings. The declaration of the error counter is not
  part of the source file; it is a mathematical integer here.
\<close>

record TelescopeState =
  RightAscension :: real
  Declination :: real
  Slewing :: bool
  Tracking :: bool
  AtPark :: bool
  TrackingRate :: TYPE_DriveRates
  cTelescopeRA_String :: string
  cTelescopeDEC_String :: string
  cTelescopeStatus_String :: string
  cTelescopeInfoValid :: bool
  cIOptron_CommErrCnt :: int
  Connected :: bool
  cTelescopeConnectionOpen :: bool
  cDeviceConnType :: DeviceConnectionType
  cSocket_desc :: int
  cDeviceConnFileDesc :: int
  cCmdQueue :: "string list"

subsection \<open>The response decoder\<close>

definition CheckForValidResponse :: "string \<Rightarrow> bool option" where
  "CheckForValidResponse iOptronResponseString =
     (let strLen = length iOptronResponseString in
      if strLen > 0 then do {
        c \<leftarrow> rd iOptronResponseString (strLen - 1);
        Some (c = CHR ''#'')
      } else Some False)"

text \<open>
  The two loops that bring the hours into the range from 0 to 24. Every step rounds its
  result to binary64. The loops are partial functions: \<open>None\<close> stands for a loop that
  does not end.
\<close>

partial_function (option) norm_down :: "real \<Rightarrow> real option" where
  "norm_down x = (if x \<ge> 24 then norm_down (dbl_sub x 24) else Some x)"

partial_function (option) norm_up :: "real \<Rightarrow> real option" where
  "norm_up x = (if x < 0 then norm_up (dbl_add x 24) else Some x)"

text \<open>
  The conversion of an \<^verbatim>\<open>int\<close> to \<^verbatim>\<open>double\<close> (\<^verbatim>\<open>hours_Dbl = hours\<close>, and the operand
  of \<^verbatim>\<open>1.0 * minutes\<close>) is exact: every \<^verbatim>\<open>int\<close> is a double.
\<close>

definition iOptron_ParseRA :: "string \<Rightarrow> real option" where
  "iOptron_ParseRA dataBuffer = do {
     isValid \<leftarrow> CheckForValidResponse dataBuffer;
     if isValid then do {
       hours \<leftarrow> atoi dataBuffer;
       let charPtr = skip_digits dataBuffer;
       (minutes, seconds) \<leftarrow>
         (if deref charPtr = CHR '':'' then do {
            let charPtr = tl charPtr;
            minutes \<leftarrow> atoi charPtr;
            let charPtr = skip_digits charPtr;
            seconds \<leftarrow> (if deref charPtr = CHR '':'' then atoi (tl charPtr) else Some 0);
            Some (minutes, seconds)
          } else Some (0, 0));
       let hours_Dbl = real_of_int hours;
       let hours_Dbl = dbl_add hours_Dbl (dbl_div (dbl_mul 1 (real_of_int minutes)) 60);
       let hours_Dbl = dbl_add hours_Dbl (dbl_div (dbl_mul 1 (real_of_int seconds)) 3600);
       hours_Dbl \<leftarrow> norm_down hours_Dbl;
       norm_up hours_Dbl
     } else Some 0
   }"

definition iOptron_ParseDegMinSec :: "string \<Rightarrow> real option" where
  "iOptron_ParseDegMinSec dataBuffer = do {
     isValid \<leftarrow> CheckForValidResponse dataBuffer;
     if isValid then do {
       let (plusMinus, charPtr) =
         (if deref dataBuffer = CHR ''+'' then (1, tl dataBuffer)
          else if deref dataBuffer = CHR ''-'' then (- 1, tl dataBuffer)
          else (1 :: int, dataBuffer));
       degrees \<leftarrow> atoi charPtr;
       let charPtr = skip_digits charPtr;
       (minutes, seconds) \<leftarrow>
         (if deref charPtr = CHR ''*'' then do {
            let charPtr = tl charPtr;
            minutes \<leftarrow> atoi charPtr;
            let charPtr = skip_digits charPtr;
            seconds \<leftarrow> (if deref charPtr = CHR '':'' then atoi (tl charPtr) else Some 0);
            Some (minutes, seconds)
          } else Some (0, 0));
       let degrees_Dbl = real_of_int degrees;
       let degrees_Dbl = dbl_add degrees_Dbl (dbl_div (dbl_mul 1 (real_of_int minutes)) 60);
       let degrees_Dbl = dbl_add degrees_Dbl (dbl_div (dbl_mul 1 (real_of_int seconds)) 3600);
       Some (dbl_mul (real_of_int plusMinus) degrees_Dbl)
     } else Some 0
   }"

definition Process_RA_Response :: "string \<Rightarrow> TelescopeState \<Rightarrow> (bool \<times> TelescopeState) option" where
  "Process_RA_Response dataBuffer st = do {
     isValid \<leftarrow> CheckForValidResponse dataBuffer;
     if isValid then do {
       hours_Dbl \<leftarrow> iOptron_ParseRA dataBuffer;
       if hours_Dbl \<ge> 0 \<and> hours_Dbl < 24 then do {
         let st = (if length dataBuffer < 32 then st\<lparr>cTelescopeRA_String := dataBuffer\<rparr> else st);
         Some (isValid, st\<lparr>RightAscension := hours_Dbl\<rparr>)
       } else Some (isValid, st)
     } else Some (isValid, st)
   }"

definition Process_DEC_Response :: "string \<Rightarrow> TelescopeState \<Rightarrow> (bool \<times> TelescopeState) option" where
  "Process_DEC_Response dataBuffer st = do {
     isValid \<leftarrow> CheckForValidResponse dataBuffer;
     if isValid then do {
       degrees_Dbl \<leftarrow> iOptron_ParseDegMinSec dataBuffer;
       if degrees_Dbl \<ge> - 90 \<and> degrees_Dbl \<le> 90 then do {
         let st = (if length dataBuffer < 32 then st\<lparr>cTelescopeDEC_String := dataBuffer\<rparr> else st);
         Some (isValid, st\<lparr>Declination := degrees_Dbl\<rparr>)
       } else Some (isValid, st)
     } else Some (isValid, st)
   }"

text \<open>
  \<^verbatim>\<open>strncmp(dataBuffer, "+", 1) == 0\<close> compares the first character;
  \<^verbatim>\<open>strchr(dataBuffer, c) != NULL\<close> asks whether \<open>c\<close> occurs in the string.
\<close>

definition Process_iOptronResponse :: "string \<Rightarrow> TelescopeState \<Rightarrow> (bool \<times> TelescopeState) option" where
  "Process_iOptronResponse dataBuffer st = do {
     isValid \<leftarrow> CheckForValidResponse dataBuffer;
     if isValid then
       (if take 1 dataBuffer = ''+'' \<or> take 1 dataBuffer = ''-'' then
          (if CHR '':'' \<in> set dataBuffer then do {
             (_, st) \<leftarrow> Process_RA_Response dataBuffer st;
             Some (isValid, st)
           } else if CHR ''*'' \<in> set dataBuffer then do {
             (_, st) \<leftarrow> Process_DEC_Response dataBuffer st;
             Some (isValid, st)
           } else Some (isValid, st))
        else Some (isValid, st))
     else Some (isValid, st)
   }"

definition Process_GEP_Response :: "string \<Rightarrow> TelescopeState \<Rightarrow> (bool \<times> TelescopeState) option" where
  "Process_GEP_Response dataBuffer st = do {
     isValid \<leftarrow> CheckForValidResponse dataBuffer;
     if isValid then
       (let strLen = length dataBuffer in
        if strLen \<ge> 20 then do {
          c0 \<leftarrow> rd dataBuffer 0;
          let sign = (if c0 = CHR ''-'' then - 1 else 1);
          decStr \<leftarrow> strncpy_from dataBuffer 1 8;
          dec_val \<leftarrow> atoll decStr;
          let dec_arcsec_01 = dec_val * sign;
          let dec_degrees = real_of_int dec_arcsec_01 / (3600 * 100);
          raStr \<leftarrow> strncpy_from dataBuffer 9 9;
          ra_arcsec_01 \<leftarrow> atoll raStr;
          let ra_hours = real_of_int ra_arcsec_01 / (15 * 3600 * 100);
          let st = (if dec_degrees \<ge> - 90 \<and> dec_degrees \<le> 90
                    then st\<lparr>Declination := dec_degrees\<rparr> else st);
          let st = (if ra_hours \<ge> 0 \<and> ra_hours < 24
                    then st\<lparr>RightAscension := ra_hours\<rparr> else st);
          let st = (if length dataBuffer < 32
                    then st\<lparr>cTelescopeDEC_String := dataBuffer\<rparr> else st);
          Some (isValid, st)
        } else Some (isValid, st))
     else Some (isValid, st)
   }"

text \<open>
  The selector of each \<^verbatim>\<open>switch\<close> is \<^verbatim>\<open>dataBuffer[i] - '0'\<close>; whether \<^verbatim>\<open>char\<close> is
  signed makes no difference, since a byte above 127 selects no case label either way.
\<close>

definition Process_GLS_Response :: "string \<Rightarrow> TelescopeState \<Rightarrow> (bool \<times> TelescopeState) option" where
  "Process_GLS_Response dataBuffer st = do {
     isValid \<leftarrow> CheckForValidResponse dataBuffer;
     if isValid then
       (let strLen = length dataBuffer in
        if strLen \<ge> 23 then do {
          let st = (if strLen < 64 then st\<lparr>cTelescopeStatus_String := dataBuffer\<rparr> else st);
          c18 \<leftarrow> rd dataBuffer 18;
          let systemStatus = (of_char c18 - 48 :: int);
          let st =
            (if systemStatus = 0 then st\<lparr>Slewing := False, Tracking := False\<rparr>
             else if systemStatus = 1 then st\<lparr>Slewing := False, Tracking := True\<rparr>
             else if systemStatus = 2 then st\<lparr>Slewing := True, Tracking := False\<rparr>
             else if systemStatus = 3 then st\<lparr>Slewing := False, Tracking := True\<rparr>
             else if systemStatus = 4 then st\<lparr>Slewing := True, Tracking := False\<rparr>
             else if systemStatus = 5 then st\<lparr>Slewing := False, Tracking := True\<rparr>
             else if systemStatus = 6
               then st\<lparr>AtPark := True, Slewing := False, Tracking := False\<rparr>
             else if systemStatus = 7 then st\<lparr>Slewing := False, Tracking := False\<rparr>
             else st);
          c19 \<leftarrow> rd dataBuffer 19;
          let trackingRate = (of_char c19 - 48 :: int);
          let st =
            (if trackingRate = 0 then st\<lparr>TrackingRate := kDriveRate_driveSidereal\<rparr>
             else if trackingRate = 1 then st\<lparr>TrackingRate := kDriveRate_driveLunar\<rparr>
             else if trackingRate = 2 then st\<lparr>TrackingRate := kDriveRate_driveSolar\<rparr>
             else if trackingRate = 3 then st\<lparr>TrackingRate := kDriveRate_driveKing\<rparr>
             else st\<lparr>TrackingRate := kDriveRate_driveSidereal\<rparr>);
          Some (isValid, st)
        } else Some (isValid, st))
     else Some (isValid, st)
   }"

subsection \<open>The poll cycle\<close>

text \<open>
  \<^verbatim>\<open>iOptron_SendCommand\<close> writes a command and reads the reply byte by byte until
  \<^verbatim>\<open>#\<close>, a time-out, the end of the stream or a read error. The transport is the
  environment of the model: \<open>mount cmd\<close> is the sequence of bytes that the read loop
  has stored for the command \<open>cmd\<close>. The function returns the number of these bytes
  and leaves them, NUL-terminated, in \<^verbatim>\<open>returnBuffer\<close>; as a C string the buffer ends at
  its first NUL byte.
\<close>

definition c_str :: "string \<Rightarrow> string" where
  "c_str bytes = takeWhile (\<lambda>c. c \<noteq> CHR 0x00) bytes"

definition iOptron_SendCommand :: "(string \<Rightarrow> string) \<Rightarrow> string \<Rightarrow> int \<times> string" where
  "iOptron_SendCommand mount cmdString =
     (let bytes = mount cmdString in (int (length bytes), c_str bytes))"

text \<open>The test of the descriptor that precedes each \<^verbatim>\<open>iOptron_SendCommand\<close>.\<close>

definition descriptor_valid :: "TelescopeState \<Rightarrow> bool" where
  "descriptor_valid st =
     (if cDeviceConnType st = kDevCon_Ethernet then \<not> cSocket_desc st \<le> 0
      else \<not> cDeviceConnFileDesc st < 0)"

definition SendCmdsPeriodic :: "(string \<Rightarrow> string) \<Rightarrow> TelescopeState \<Rightarrow> (bool \<times> TelescopeState) option" where
  "SendCmdsPeriodic mount st =
     (if \<not> cTelescopeConnectionOpen st then Some (False, st)
      else if \<not> descriptor_valid st then Some (False, st)
      else do {
        let (returnByteCnt, returnBuffer) = iOptron_SendCommand mount '':GEP#'';
        (isValid, st) \<leftarrow>
          (if returnByteCnt > 0 then do {
             (isValid, st) \<leftarrow> Process_GEP_Response returnBuffer st;
             Some (isValid,
               if isValid then st\<lparr>cTelescopeInfoValid := True\<rparr>
               else st\<lparr>cIOptron_CommErrCnt := cIOptron_CommErrCnt st + 1,
                       cTelescopeInfoValid := False\<rparr>)
           } else Some (False, st\<lparr>cIOptron_CommErrCnt := cIOptron_CommErrCnt st + 1\<rparr>));
        if \<not> descriptor_valid st then Some (False, st)
        else do {
          let (returnByteCnt, returnBuffer) = iOptron_SendCommand mount '':GLS#'';
          st \<leftarrow>
            (if returnByteCnt > 0 then do {
               (_, st) \<leftarrow> Process_GLS_Response returnBuffer st;
               Some st
             } else Some st);
          Some (isValid, st)
        }
      })"

subsection \<open>The coordinate encoder\<close>

text \<open>
  Modelled from the spec: \<^verbatim>\<open>AddCmdToQueue\<close> is a member of the base class
  \<^verbatim>\<open>TelescopeDriverComm\<close>, whose source is not part of the file. The spec says of it
  that enqueue appends to the tail of an ordered first-in first-out sequence of command
  strings. It gives a capacity no value, so the model has none.
\<close>

definition AddCmdToQueue :: "string \<Rightarrow> TelescopeState \<Rightarrow> TelescopeState" where
  "AddCmdToQueue cmdString st = st\<lparr>cCmdQueue := cCmdQueue st @ [cmdString]\<rparr>"

text \<open>
  The two encoder functions return their status and the new state in an \<open>option\<close>, as
  the decoder functions do. They read no buffer, so their result is never \<open>None\<close>.
\<close>

definition Telescope_SlewToRA_DEC ::
    "real \<Rightarrow> real \<Rightarrow> TelescopeState \<Rightarrow> (TYPE_ASCOM_STATUS \<times> TelescopeState) option" where
  "Telescope_SlewToRA_DEC newRtAscen_Hours newDeclination_Degrees st =
     (if \<not> Connected st then Some (kASCOM_Err_NotConnected, st)
      else if \<not> cTelescopeConnectionOpen st then Some (kASCOM_Err_NotConnected, st)
      else do {
        let ra_arcsec_01 =
          double_to_int64 (dbl_mul (dbl_mul (dbl_mul newRtAscen_Hours 15) 3600) 100);
        let ra_arcsec_01 = (if ra_arcsec_01 < 0 then 0 else ra_arcsec_01);
        let ra_arcsec_01 = (if ra_arcsec_01 > 129600000 then 129600000 else ra_arcsec_01);
        let st = AddCmdToQueue ('':SRA'' @ sprintf_0lld 9 ra_arcsec_01 @ ''#'') st;
        let dec_arcsec_01 =
          double_to_int64 (dbl_mul (dbl_mul newDeclination_Degrees 3600) 100);
        let dec_arcsec_01 = (if dec_arcsec_01 < - 32400000 then - 32400000 else dec_arcsec_01);
        let dec_arcsec_01 = (if dec_arcsec_01 > 32400000 then 32400000 else dec_arcsec_01);
        let commandString =
          (if dec_arcsec_01 \<ge> 0 then '':Sds+'' @ sprintf_0lld 8 dec_arcsec_01 @ ''#''
           else '':Sds-'' @ sprintf_0lld 8 (- dec_arcsec_01) @ ''#'');
        let st = AddCmdToQueue commandString st;
        let st = AddCmdToQueue '':MS1#'' st;
        Some (kASCOM_Err_Success, st\<lparr>Slewing := True\<rparr>)
      })"

definition Telescope_SyncToRA_DEC ::
    "real \<Rightarrow> real \<Rightarrow> TelescopeState \<Rightarrow> (TYPE_ASCOM_STATUS \<times> TelescopeState) option" where
  "Telescope_SyncToRA_DEC newRtAscen_Hours newDeclination_Degrees st =
     (if \<not> Connected st then Some (kASCOM_Err_NotConnected, st)
      else if \<not> cTelescopeConnectionOpen st then Some (kASCOM_Err_NotConnected, st)
      else do {
        let ra_arcsec_01 =
          double_to_int64 (dbl_mul (dbl_mul (dbl_mul newRtAscen_Hours 15) 3600) 100);
        let ra_arcsec_01 = (if ra_arcsec_01 < 0 then 0 else ra_arcsec_01);
        let ra_arcsec_01 = (if ra_arcsec_01 > 129600000 then 129600000 else ra_arcsec_01);
        let st = AddCmdToQueue ('':SRA'' @ sprintf_0lld 9 ra_arcsec_01 @ ''#'') st;
        let dec_arcsec_01 =
          double_to_int64 (dbl_mul (dbl_mul newDeclination_Degrees 3600) 100);
        let dec_arcsec_01 = (if dec_arcsec_01 < - 32400000 then - 32400000 else dec_arcsec_01);
        let dec_arcsec_01 = (if dec_arcsec_01 > 32400000 then 32400000 else dec_arcsec_01);
        let commandString =
          (if dec_arcsec_01 \<ge> 0 then '':Sds+'' @ sprintf_0lld 8 dec_arcsec_01 @ ''#''
           else '':Sds-'' @ sprintf_0lld 8 (- dec_arcsec_01) @ ''#'');
        let st = AddCmdToQueue commandString st;
        let st = AddCmdToQueue '':CM#'' st;
        Some (kASCOM_Err_Success, st)
      })"

subsection \<open>Notions used to state the properties\<close>

text \<open>The number that a string of decimal digits denotes, by the weight of each position.\<close>

definition positional_value :: "string \<Rightarrow> int" where
  "positional_value ds =
     (\<Sum>i<length ds. (of_char (ds ! i) - 48) * 10 ^ (length ds - Suc i))"

text \<open>
  What may follow a decimal field so that \<^verbatim>\<open>atoi\<close> reads the field and nothing else: a
  character that is no digit, no white space and no sign. The terminator \<^verbatim>\<open>#\<close> and the
  separator \<^verbatim>\<open>:\<close> are such characters.
\<close>

definition field_end :: "string \<Rightarrow> bool" where
  "field_end t = (t \<noteq> [] \<and> \<not> isdigit (hd t) \<and> \<not> isspace (hd t) \<and>
                  hd t \<noteq> CHR ''+'' \<and> hd t \<noteq> CHR ''-'')"

text \<open>
  For the proofs, the two \<^verbatim>\<open>switch\<close> statements of \<^verbatim>\<open>Process_GLS_Response\<close> as
  functions of their own.
\<close>

definition system_status_switch :: "int \<Rightarrow> TelescopeState \<Rightarrow> TelescopeState" where
  "system_status_switch systemStatus st =
     (if systemStatus = 0 then st\<lparr>Slewing := False, Tracking := False\<rparr>
      else if systemStatus = 1 then st\<lparr>Slewing := False, Tracking := True\<rparr>
      else if systemStatus = 2 then st\<lparr>Slewing := True, Tracking := False\<rparr>
      else if systemStatus = 3 then st\<lparr>Slewing := False, Tracking := True\<rparr>
      else if systemStatus = 4 then st\<lparr>Slewing := True, Tracking := False\<rparr>
      else if systemStatus = 5 then st\<lparr>Slewing := False, Tracking := True\<rparr>
      else if systemStatus = 6 then st\<lparr>AtPark := True, Slewing := False, Tracking := False\<rparr>
      else if systemStatus = 7 then st\<lparr>Slewing := False, Tracking := False\<rparr>
      else st)"

definition tracking_rate_switch :: "int \<Rightarrow> TelescopeState \<Rightarrow> TelescopeState" where
  "tracking_rate_switch trackingRate st =
     (if trackingRate = 0 then st\<lparr>TrackingRate := kDriveRate_driveSidereal\<rparr>
      else if trackingRate = 1 then st\<lparr>TrackingRate := kDriveRate_driveLunar\<rparr>
      else if trackingRate = 2 then st\<lparr>TrackingRate := kDriveRate_driveSolar\<rparr>
      else if trackingRate = 3 then st\<lparr>TrackingRate := kDriveRate_driveKing\<rparr>
      else st\<lparr>TrackingRate := kDriveRate_driveSidereal\<rparr>)"

text \<open>
  For the proofs, the lines that \<^verbatim>\<open>Telescope_SlewToRA_DEC\<close> and
  \<^verbatim>\<open>Telescope_SyncToRA_DEC\<close> have in common word for word: both coordinates are
  converted, clamped, printed and queued.
\<close>

definition queue_target_coordinates :: "real \<Rightarrow> real \<Rightarrow> TelescopeState \<Rightarrow> TelescopeState" where
  "queue_target_coordinates newRtAscen_Hours newDeclination_Degrees st =
     (let ra_arcsec_01 =
            double_to_int64 (dbl_mul (dbl_mul (dbl_mul newRtAscen_Hours 15) 3600) 100);
          ra_arcsec_01 = (if ra_arcsec_01 < 0 then 0 else ra_arcsec_01);
          ra_arcsec_01 = (if ra_arcsec_01 > 129600000 then 129600000 else ra_arcsec_01);
          st = AddCmdToQueue ('':SRA'' @ sprintf_0lld 9 ra_arcsec_01 @ ''#'') st;
          dec_arcsec_01 =
            double_to_int64 (dbl_mul (dbl_mul newDeclination_Degrees 3600) 100);
          dec_arcsec_01 = (if dec_arcsec_01 < - 32400000 then - 32400000 else dec_arcsec_01);
          dec_arcsec_01 = (if dec_arcsec_01 > 32400000 then 32400000 else dec_arcsec_01);
          commandString =
            (if dec_arcsec_01 \<ge> 0 then '':Sds+'' @ sprintf_0lld 8 dec_arcsec_01 @ ''#''
             else '':Sds-'' @ sprintf_0lld 8 (- dec_arcsec_01) @ ''#'')
      in AddCmdToQueue commandString st)"

text \<open>
  A driver with an open serial connection, an empty queue and all coordinates at zero,
  as a concrete state to run the functions on.
\<close>

definition connected_state :: TelescopeState where
  "connected_state =
     \<lparr>RightAscension = 0, Declination = 0, Slewing = False, Tracking = False, AtPark = False,
      TrackingRate = kDriveRate_driveSidereal, cTelescopeRA_String = [],
      cTelescopeDEC_String = [], cTelescopeStatus_String = [], cTelescopeInfoValid = False,
      cIOptron_CommErrCnt = 0, Connected = True, cTelescopeConnectionOpen = True,
      cDeviceConnType = kDevCon_Serial, cSocket_desc = - 1, cDeviceConnFileDesc = 3,
      cCmdQueue = []\<rparr>"

section \<open>Properties\<close>

subsection \<open>The validity check\<close>

lemma CheckForValidResponse_eq:
  "CheckForValidResponse s = Some (s \<noteq> [] \<and> last s = CHR ''#'')"
  by (cases "s = []") (simp_all add: CheckForValidResponse_def rd_def last_conv_nth)

lemma CheckForValidResponse_invalid:
  "\<not> (s \<noteq> [] \<and> last s = CHR ''#'') \<Longrightarrow> CheckForValidResponse s = Some False"
  by (simp only: CheckForValidResponse_eq simp_thms)

lemma CheckForValidResponse_valid:
  "s \<noteq> [] \<Longrightarrow> last s = CHR ''#'' \<Longrightarrow> CheckForValidResponse s = Some True"
  by (simp only: CheckForValidResponse_eq simp_thms)

lemma Process_RA_Response_invalid:
  "CheckForValidResponse s = Some False \<Longrightarrow> Process_RA_Response s st = Some (False, st)"
  by (simp add: Process_RA_Response_def)

lemma Process_DEC_Response_invalid:
  "CheckForValidResponse s = Some False \<Longrightarrow> Process_DEC_Response s st = Some (False, st)"
  by (simp add: Process_DEC_Response_def)

lemma Process_iOptronResponse_invalid:
  "CheckForValidResponse s = Some False \<Longrightarrow> Process_iOptronResponse s st = Some (False, st)"
  by (simp add: Process_iOptronResponse_def)

lemma Process_GEP_Response_invalid:
  "CheckForValidResponse s = Some False \<Longrightarrow> Process_GEP_Response s st = Some (False, st)"
  by (simp add: Process_GEP_Response_def)

lemma Process_GLS_Response_invalid:
  "CheckForValidResponse s = Some False \<Longrightarrow> Process_GLS_Response s st = Some (False, st)"
  by (simp add: Process_GLS_Response_def)

text \<open>
  Claim C3. The validity check accepts a string exactly when it is not empty and its
  last character is \<^verbatim>\<open>#\<close>. When the check fails, the generic response processor and the
  RA, DEC, GEP and GLS processors all report the frame invalid and return the state they
  were given, so no coordinate, flag, tracking rate or stored string changes.
\<close>

theorem invalid_frame_rejected_by_every_decoder:
  "CheckForValidResponse s = Some (s \<noteq> [] \<and> last s = CHR ''#'') \<and>
   (\<not> (s \<noteq> [] \<and> last s = CHR ''#'') \<longrightarrow>
      Process_iOptronResponse s st = Some (False, st) \<and>
      Process_RA_Response s st = Some (False, st) \<and>
      Process_DEC_Response s st = Some (False, st) \<and>
      Process_GEP_Response s st = Some (False, st) \<and>
      Process_GLS_Response s st = Some (False, st))"
proof (intro conjI impI)
  show "CheckForValidResponse s = Some (s \<noteq> [] \<and> last s = CHR ''#'')"
    by (rule CheckForValidResponse_eq)
next
  assume "\<not> (s \<noteq> [] \<and> last s = CHR ''#'')"
  then have inv: "CheckForValidResponse s = Some False"
    by (rule CheckForValidResponse_invalid)
  show "Process_iOptronResponse s st = Some (False, st)"
    using inv by (rule Process_iOptronResponse_invalid)
  show "Process_RA_Response s st = Some (False, st)"
    using inv by (rule Process_RA_Response_invalid)
  show "Process_DEC_Response s st = Some (False, st)"
    using inv by (rule Process_DEC_Response_invalid)
  show "Process_GEP_Response s st = Some (False, st)"
    using inv by (rule Process_GEP_Response_invalid)
  show "Process_GLS_Response s st = Some (False, st)"
    using inv by (rule Process_GLS_Response_invalid)
qed

theorem invalid_frame_rejected_by_every_decoder_witness:
  "CheckForValidResponse ''1234'' = Some False \<and>
   Process_iOptronResponse ''1234'' connected_state = Some (False, connected_state) \<and>
   Process_RA_Response ''1234'' connected_state = Some (False, connected_state) \<and>
   Process_DEC_Response ''1234'' connected_state = Some (False, connected_state) \<and>
   Process_GEP_Response ''1234'' connected_state = Some (False, connected_state) \<and>
   Process_GLS_Response ''1234'' connected_state = Some (False, connected_state)"
  using invalid_frame_rejected_by_every_decoder [of "''1234''" connected_state]
  by simp

subsection \<open>Decimal fields\<close>

lemma positional_value_Nil [simp]: "positional_value [] = 0"
  by (simp add: positional_value_def)

lemma positional_value_Cons:
  "positional_value (c # cs) = (of_char c - 48) * 10 ^ length cs + positional_value cs"
  by (simp add: positional_value_def sum.lessThan_Suc_shift del: sum.lessThan_Suc)

lemma isdigit_value:
  assumes "isdigit c"
  shows "0 \<le> (of_char c - 48 :: int) \<and> (of_char c - 48 :: int) \<le> 9"
proof -
  from assms have "48 \<le> (of_char c :: nat)" and "(of_char c :: nat) \<le> 57"
    by (simp_all add: isdigit_def)
  then have "48 \<le> int (of_char c)" and "int (of_char c) \<le> 57" by linarith+
  then show ?thesis by (simp add: of_nat_of_char)
qed

lemma digits_val_positional:
  "\<forall>c\<in>set ds. isdigit c \<Longrightarrow> digits_val acc ds = acc * 10 ^ length ds + positional_value ds"
  by (induction ds arbitrary: acc) (simp_all add: positional_value_Cons algebra_simps)

lemma positional_value_bounds:
  "\<forall>c\<in>set ds. isdigit c \<Longrightarrow> 0 \<le> positional_value ds \<and> positional_value ds < 10 ^ length ds"
proof (induction ds)
  case Nil
  then show ?case by simp
next
  case (Cons c cs)
  then have d: "0 \<le> (of_char c - 48 :: int)" "(of_char c - 48 :: int) \<le> 9"
    using isdigit_value [of c] by simp_all
  from Cons have ih: "0 \<le> positional_value cs" "positional_value cs < 10 ^ length cs"
    by simp_all
  define P :: int where "P = 10 ^ length cs"
  have le: "(of_char c - 48 :: int) * P \<le> 9 * P"
    using d by (intro mult_right_mono) (simp_all add: P_def)
  have ge: "0 \<le> (of_char c - 48 :: int) * P"
    using d by (simp add: P_def)
  have "positional_value (c # cs) = (of_char c - 48) * P + positional_value cs"
    by (simp add: positional_value_Cons P_def)
  moreover have "(10::int) ^ length (c # cs) = 10 * P"
    by (simp add: P_def)
  moreover have "positional_value cs < P"
    using ih by (simp add: P_def)
  ultimately show ?case using le ge ih(1) by linarith
qed

lemma isdigit_not_space_sign:
  "isdigit c \<Longrightarrow> \<not> isspace c \<and> c \<noteq> CHR ''-'' \<and> c \<noteq> CHR ''+''"
  by (auto simp: isdigit_def isspace_def)

lemma strtol_val_digits:
  assumes all: "\<forall>c\<in>set ds. isdigit c"
  shows "strtol_val ds = positional_value ds"
proof (cases ds)
  case Nil
  then show ?thesis by (simp add: strtol_val_def)
next
  case (Cons c cs)
  with all have "isdigit c" by simp
  then have "\<not> isspace c" "c \<noteq> CHR ''-''" "c \<noteq> CHR ''+''"
    using isdigit_not_space_sign by blast+
  then have "strtol_val ds = digits_val 0 ds"
    using Cons by (simp add: strtol_val_def)
  then show ?thesis using digits_val_positional [OF all, of 0] by simp
qed

lemma atoll_digits:
  assumes "\<forall>c\<in>set ds. isdigit c" and "length ds \<le> 18"
  shows "atoll ds = Some (positional_value ds)"
proof -
  have "0 \<le> positional_value ds" and lt: "positional_value ds < 10 ^ length ds"
    using positional_value_bounds [OF assms(1)] by simp_all
  moreover have "(10::int) ^ length ds \<le> 10 ^ 18"
    using assms(2) by (intro power_increasing) simp_all
  ultimately have "- (2 ^ 63) \<le> positional_value ds \<and> positional_value ds < 2 ^ 63"
    by simp
  then show ?thesis
    by (simp add: atoll_def strtol_val_digits [OF assms(1)])
qed

text \<open>Whatever the characters are, a short string never denotes a number out of range.\<close>

lemma digits_val_bound:
  "0 \<le> acc \<Longrightarrow> 0 \<le> digits_val acc cs \<and> digits_val acc cs < (acc + 1) * 10 ^ length cs"
proof (induction cs arbitrary: acc)
  case Nil
  then show ?case by simp
next
  case (Cons c cs)
  show ?case
  proof (cases "isdigit c")
    case False
    define P :: int where "P = 10 ^ length (c # cs)"
    have P: "1 \<le> P" unfolding P_def by (rule one_le_power) simp
    then have "acc * 1 \<le> acc * P"
      using Cons.prems by (intro mult_left_mono)
    then have "acc < (acc + 1) * P" using P by (simp add: algebra_simps)
    then show ?thesis using False Cons.prems by (simp add: P_def)
  next
    case True
    then have d: "0 \<le> (of_char c - 48 :: int)" "(of_char c - 48 :: int) \<le> 9"
      using isdigit_value by blast+
    define a where "a = 10 * acc + (of_char c - 48)"
    have a: "0 \<le> a" "a + 1 \<le> 10 * (acc + 1)" using d Cons.prems by (simp_all add: a_def)
    have ih: "0 \<le> digits_val a cs" "digits_val a cs < (a + 1) * 10 ^ length cs"
      using Cons.IH [OF a(1)] by simp_all
    have step: "digits_val acc (c # cs) = digits_val a cs" using True by (simp add: a_def)
    have "(a + 1) * 10 ^ length cs \<le> (10 * (acc + 1)) * 10 ^ length cs"
      using a(2) by (intro mult_right_mono) simp_all
    with ih(2) have "digits_val a cs < (10 * (acc + 1)) * 10 ^ length cs"
      by (rule less_le_trans)
    then have "digits_val a cs < (acc + 1) * 10 ^ length (c # cs)"
      by (simp add: algebra_simps)
    then show ?thesis unfolding step using ih(1) by simp
  qed
qed

lemma strtol_val_bound: "\<bar>strtol_val s\<bar> < 10 ^ length s"
proof -
  have len: "length (dropWhile isspace s) \<le> length s" by (rule length_dropWhile_le)
  have mono: "(10::int) ^ n \<le> 10 ^ length s" if "n \<le> length s" for n
    using that by (intro power_increasing) simp_all
  show ?thesis
  proof (cases "dropWhile isspace s")
    case Nil
    show ?thesis unfolding strtol_val_def Nil by simp
  next
    case (Cons c cs)
    have cs: "0 \<le> digits_val 0 cs" "digits_val 0 cs < 10 ^ length cs"
      using digits_val_bound [of 0 cs] by simp_all
    have ccs: "0 \<le> digits_val 0 (c # cs)" "digits_val 0 (c # cs) < 10 ^ length (c # cs)"
      using digits_val_bound [of 0 "c # cs"] by simp_all
    have "length cs \<le> length s" and "length (c # cs) \<le> length s"
      using len Cons by simp_all
    then have "(10::int) ^ length cs \<le> 10 ^ length s"
      and "(10::int) ^ length (c # cs) \<le> 10 ^ length s"
      using mono by blast+
    then have "\<bar>digits_val 0 cs\<bar> < 10 ^ length s" and "\<bar>digits_val 0 (c # cs)\<bar> < 10 ^ length s"
      using cs ccs by linarith+
    then show ?thesis unfolding strtol_val_def Cons by simp
  qed
qed

lemma atoll_defined:
  assumes "length s \<le> 18"
  shows "\<exists>v. atoll s = Some v"
proof -
  have "(10::int) ^ length s \<le> 10 ^ 18"
    using assms by (intro power_increasing) simp_all
  then have "\<bar>strtol_val s\<bar> < 2 ^ 63" using strtol_val_bound [of s] by simp
  then show ?thesis by (simp add: atoll_def abs_less_iff)
qed

subsection \<open>The position frame\<close>

lemma Process_GEP_Response_short:
  "s \<noteq> [] \<Longrightarrow> last s = CHR ''#'' \<Longrightarrow> length s < 20 \<Longrightarrow>
   Process_GEP_Response s st = Some (True, st)"
  by (simp add: Process_GEP_Response_def CheckForValidResponse_valid)

lemma Process_GEP_Response_long:
  assumes "last s = CHR ''#''" and "20 \<le> length s"
    and "atoll (take 8 (drop 1 s)) = Some d" and "atoll (take 9 (drop 9 s)) = Some r"
  shows "Process_GEP_Response s st =
     Some (True,
       (let dec_degrees = real_of_int (d * (if s ! 0 = CHR ''-'' then - 1 else 1)) / (3600 * 100);
            ra_hours = real_of_int r / (15 * 3600 * 100);
            st = (if dec_degrees \<ge> - 90 \<and> dec_degrees \<le> 90
                  then st\<lparr>Declination := dec_degrees\<rparr> else st);
            st = (if ra_hours \<ge> 0 \<and> ra_hours < 24
                  then st\<lparr>RightAscension := ra_hours\<rparr> else st)
        in if length s < 32 then st\<lparr>cTelescopeDEC_String := s\<rparr> else st))"
proof -
  from assms(2) have ne: "s \<noteq> []" by auto
  show ?thesis
    using assms ne
    by (simp add: Process_GEP_Response_def CheckForValidResponse_valid [OF ne assms(1)]
        rd_def strncpy_from_def Let_def)
qed

text \<open>On no frame at all does the GEP decoder read out of bounds.\<close>

lemma Process_GEP_Response_defined:
  "\<exists>v st'. Process_GEP_Response s st = Some (v, st')"
proof (cases "s \<noteq> [] \<and> last s = CHR ''#''")
  case False
  then show ?thesis
    using Process_GEP_Response_invalid [OF CheckForValidResponse_invalid] by blast
next
  case True
  show ?thesis
  proof (cases "20 \<le> length s")
    case False
    then have "Process_GEP_Response s st = Some (True, st)"
      using True Process_GEP_Response_short [of s st] by simp
    then show ?thesis by blast
  next
    case long: True
    have "length (take 8 (drop 1 s)) \<le> 18" and "length (take 9 (drop 9 s)) \<le> 18"
      by simp_all
    then obtain d r where d: "atoll (take 8 (drop 1 s)) = Some d"
      and r: "atoll (take 9 (drop 9 s)) = Some r"
      using atoll_defined by blast
    show ?thesis
      unfolding Process_GEP_Response_long [OF conjunct2 [OF True] long d r] by blast
  qed
qed

lemma position_fields_digits:
  assumes "\<forall>c\<in>set (take 17 (drop 1 s)). isdigit c"
  shows "\<forall>c\<in>set (take 8 (drop 1 s)). isdigit c" and "\<forall>c\<in>set (take 9 (drop 9 s)). isdigit c"
proof -
  have "take 17 (drop 1 s) = take 8 (drop 1 s) @ take 9 (drop 8 (drop 1 s))"
    using take_add [of 8 9 "drop 1 s"] by simp
  then have "set (take 17 (drop 1 s)) = set (take 8 (drop 1 s)) \<union> set (take 9 (drop 9 s))"
    by simp
  with assms show "\<forall>c\<in>set (take 8 (drop 1 s)). isdigit c"
    and "\<forall>c\<in>set (take 9 (drop 9 s)). isdigit c"
    by blast+
qed

text \<open>
  Claim C1. Take a frame that ends in \<^verbatim>\<open>#\<close>, is at least 20 characters long, begins
  with a sign and carries decimal digits in the 17 bytes after it. The GEP decoder
  accepts it and computes the declination as the sign times the number of bytes 1 to 8
  divided by 360000, and the right ascension as the number of bytes 9 to 17 divided by
  5400000. Each value is stored only when it is in its range (-90 to 90 inclusive, 0
  inclusive to 24 exclusive); otherwise the stored value stays what it was.
\<close>

theorem GEP_decodes_position_fields:
  assumes "last s = CHR ''#''" and "20 \<le> length s"
    and "s ! 0 = CHR ''+'' \<or> s ! 0 = CHR ''-''"
    and "\<forall>c\<in>set (take 17 (drop 1 s)). isdigit c"
  shows "\<exists>st'. Process_GEP_Response s st = Some (True, st') \<and>
     (let dec_degrees = (if s ! 0 = CHR ''-'' then - 1 else 1) *
                          real_of_int (positional_value (take 8 (drop 1 s))) / 360000;
          ra_hours = real_of_int (positional_value (take 9 (drop 9 s))) / 5400000
      in Declination st' =
           (if - 90 \<le> dec_degrees \<and> dec_degrees \<le> 90 then dec_degrees else Declination st) \<and>
         RightAscension st' =
           (if 0 \<le> ra_hours \<and> ra_hours < 24 then ra_hours else RightAscension st))"
proof -
  note d8 = position_fields_digits(1) [OF assms(4)]
  note d9 = position_fields_digits(2) [OF assms(4)]
  have a8: "atoll (take 8 (drop 1 s)) = Some (positional_value (take 8 (drop 1 s)))"
    using d8 by (rule atoll_digits) simp
  have a9: "atoll (take 9 (drop 9 s)) = Some (positional_value (take 9 (drop 9 s)))"
    using d9 by (rule atoll_digits) simp
  show ?thesis
    unfolding Process_GEP_Response_long [OF assms(1,2) a8 a9]
    by (simp add: Let_def)
qed

theorem GEP_decodes_position_fields_witness:
  "(\<exists>st'. Process_GEP_Response ''-1197000006750000001#'' connected_state = Some (True, st') \<and>
      Declination st' = - 133 / 4 \<and> RightAscension st' = 25 / 2) \<and>
   (\<exists>st'. Process_GEP_Response ''+9999999999999999901#'' connected_state = Some (True, st') \<and>
      Declination st' = 0 \<and> RightAscension st' = 0)"
  using GEP_decodes_position_fields [of "''-1197000006750000001#''" connected_state]
    GEP_decodes_position_fields [of "''+9999999999999999901#''" connected_state]
  by (simp add: isdigit_def positional_value_Cons connected_state_def)

subsection \<open>The status frame\<close>

lemma Process_GLS_Response_short:
  "s \<noteq> [] \<Longrightarrow> last s = CHR ''#'' \<Longrightarrow> length s < 23 \<Longrightarrow>
   Process_GLS_Response s st = Some (True, st)"
  by (simp add: Process_GLS_Response_def CheckForValidResponse_valid)

lemma Process_GLS_Response_long:
  "last s = CHR ''#'' \<Longrightarrow> 23 \<le> length s \<Longrightarrow>
   Process_GLS_Response s st =
     Some (True, tracking_rate_switch (of_char (s ! 19) - 48)
       (system_status_switch (of_char (s ! 18) - 48)
          (if length s < 64 then st\<lparr>cTelescopeStatus_String := s\<rparr> else st)))"
  by (cases "s = []")
    (simp_all add: Process_GLS_Response_def CheckForValidResponse_valid rd_def Let_def
      system_status_switch_def tracking_rate_switch_def)

lemma tracking_rate_switch_flags [simp]:
  "Slewing (tracking_rate_switch r st) = Slewing st"
  "Tracking (tracking_rate_switch r st) = Tracking st"
  "AtPark (tracking_rate_switch r st) = AtPark st"
  by (simp_all add: tracking_rate_switch_def)

lemma status_digit_iff:
  "(of_char c - 48 = (0::int)) = (c = CHR ''0'')"
  "(of_char c - 48 = (1::int)) = (c = CHR ''1'')"
  "(of_char c - 48 = (2::int)) = (c = CHR ''2'')"
  "(of_char c - 48 = (3::int)) = (c = CHR ''3'')"
  "(of_char c - 48 = (4::int)) = (c = CHR ''4'')"
  "(of_char c - 48 = (5::int)) = (c = CHR ''5'')"
  "(of_char c - 48 = (6::int)) = (c = CHR ''6'')"
  "(of_char c - 48 = (7::int)) = (c = CHR ''7'')"
proof -
  have *: "(of_char c - 48 = (k::int)) = (of_char c = k + 48)" for k by auto
  have "(of_char c = (48::int)) = (of_char c = (of_char CHR ''0'' :: int))" by simp
  then show "(of_char c - 48 = (0::int)) = (c = CHR ''0'')" unfolding * of_char_eq_iff by simp
  have "(of_char c = (49::int)) = (of_char c = (of_char CHR ''1'' :: int))" by simp
  then show "(of_char c - 48 = (1::int)) = (c = CHR ''1'')" unfolding * of_char_eq_iff by simp
  have "(of_char c = (50::int)) = (of_char c = (of_char CHR ''2'' :: int))" by simp
  then show "(of_char c - 48 = (2::int)) = (c = CHR ''2'')" unfolding * of_char_eq_iff by simp
  have "(of_char c = (51::int)) = (of_char c = (of_char CHR ''3'' :: int))" by simp
  then show "(of_char c - 48 = (3::int)) = (c = CHR ''3'')" unfolding * of_char_eq_iff by simp
  have "(of_char c = (52::int)) = (of_char c = (of_char CHR ''4'' :: int))" by simp
  then show "(of_char c - 48 = (4::int)) = (c = CHR ''4'')" unfolding * of_char_eq_iff by simp
  have "(of_char c = (53::int)) = (of_char c = (of_char CHR ''5'' :: int))" by simp
  then show "(of_char c - 48 = (5::int)) = (c = CHR ''5'')" unfolding * of_char_eq_iff by simp
  have "(of_char c = (54::int)) = (of_char c = (of_char CHR ''6'' :: int))" by simp
  then show "(of_char c - 48 = (6::int)) = (c = CHR ''6'')" unfolding * of_char_eq_iff by simp
  have "(of_char c = (55::int)) = (of_char c = (of_char CHR ''7'' :: int))" by simp
  then show "(of_char c - 48 = (7::int)) = (c = CHR ''7'')" unfolding * of_char_eq_iff by simp
qed

lemma system_status_switch_char:
  "system_status_switch (of_char c - 48) st =
     (if c = CHR ''0'' then st\<lparr>Slewing := False, Tracking := False\<rparr>
      else if c = CHR ''1'' then st\<lparr>Slewing := False, Tracking := True\<rparr>
      else if c = CHR ''2'' then st\<lparr>Slewing := True, Tracking := False\<rparr>
      else if c = CHR ''3'' then st\<lparr>Slewing := False, Tracking := True\<rparr>
      else if c = CHR ''4'' then st\<lparr>Slewing := True, Tracking := False\<rparr>
      else if c = CHR ''5'' then st\<lparr>Slewing := False, Tracking := True\<rparr>
      else if c = CHR ''6'' then st\<lparr>AtPark := True, Slewing := False, Tracking := False\<rparr>
      else if c = CHR ''7'' then st\<lparr>Slewing := False, Tracking := False\<rparr>
      else st)"
  unfolding system_status_switch_def status_digit_iff ..

text \<open>
  On no frame at all does the GLS decoder read out of bounds, and it never touches the
  coordinates, the error counter or the validity mark.
\<close>

lemma Process_GLS_Response_keeps_position:
  "\<exists>v st'. Process_GLS_Response s st = Some (v, st') \<and>
     RightAscension st' = RightAscension st \<and> Declination st' = Declination st \<and>
     cIOptron_CommErrCnt st' = cIOptron_CommErrCnt st \<and>
     cTelescopeInfoValid st' = cTelescopeInfoValid st"
proof (cases "s \<noteq> [] \<and> last s = CHR ''#''")
  case False
  then show ?thesis
    using Process_GLS_Response_invalid [OF CheckForValidResponse_invalid] by blast
next
  case True
  show ?thesis
  proof (cases "23 \<le> length s")
    case False
    then have "Process_GLS_Response s st = Some (True, st)"
      using True Process_GLS_Response_short [of s st] by simp
    then show ?thesis by blast
  next
    case long: True
    show ?thesis
      unfolding Process_GLS_Response_long [OF conjunct2 [OF True] long]
      by (auto simp: tracking_rate_switch_def system_status_switch_def)
  qed
qed

text \<open>
  Claim C2. For a status frame that ends in \<^verbatim>\<open>#\<close> and is at least 23 characters long,
  the character at offset 18 decides the flags as the table says: 0 and 7 give neither
  slewing nor tracking, 1, 3 and 5 give tracking only, 2 and 4 give slewing only, 6
  gives neither and sets at-park. At-park keeps its value for every code but 6, and any
  other character at offset 18 leaves all three flags as they were.
\<close>

theorem GLS_status_code_table:
  assumes "last s = CHR ''#''" and "23 \<le> length s"
  shows "\<exists>st'. Process_GLS_Response s st = Some (True, st') \<and>
    (s ! 18 = CHR ''0'' \<longrightarrow> \<not> Slewing st' \<and> \<not> Tracking st' \<and> AtPark st' = AtPark st) \<and>
    (s ! 18 = CHR ''1'' \<longrightarrow> \<not> Slewing st' \<and> Tracking st' \<and> AtPark st' = AtPark st) \<and>
    (s ! 18 = CHR ''2'' \<longrightarrow> Slewing st' \<and> \<not> Tracking st' \<and> AtPark st' = AtPark st) \<and>
    (s ! 18 = CHR ''3'' \<longrightarrow> \<not> Slewing st' \<and> Tracking st' \<and> AtPark st' = AtPark st) \<and>
    (s ! 18 = CHR ''4'' \<longrightarrow> Slewing st' \<and> \<not> Tracking st' \<and> AtPark st' = AtPark st) \<and>
    (s ! 18 = CHR ''5'' \<longrightarrow> \<not> Slewing st' \<and> Tracking st' \<and> AtPark st' = AtPark st) \<and>
    (s ! 18 = CHR ''6'' \<longrightarrow> \<not> Slewing st' \<and> \<not> Tracking st' \<and> AtPark st') \<and>
    (s ! 18 = CHR ''7'' \<longrightarrow> \<not> Slewing st' \<and> \<not> Tracking st' \<and> AtPark st' = AtPark st) \<and>
    (s ! 18 \<notin> set ''01234567'' \<longrightarrow>
       Slewing st' = Slewing st \<and> Tracking st' = Tracking st \<and> AtPark st' = AtPark st)"
  unfolding Process_GLS_Response_long [OF assms] system_status_switch_char
  by simp

theorem GLS_status_code_table_witness:
  "(\<exists>st'. Process_GLS_Response ''+01234567012345672615211#''
            (connected_state\<lparr>Slewing := True, Tracking := True\<rparr>) = Some (True, st') \<and>
      \<not> Slewing st' \<and> \<not> Tracking st' \<and> AtPark st') \<and>
   (\<exists>st'. Process_GLS_Response ''+01234567012345672915211#''
            (connected_state\<lparr>Slewing := True, Tracking := True\<rparr>) = Some (True, st') \<and>
      Slewing st' \<and> Tracking st' \<and> \<not> AtPark st')"
  using GLS_status_code_table [of "''+01234567012345672615211#''"
      "connected_state\<lparr>Slewing := True, Tracking := True\<rparr>"]
    GLS_status_code_table [of "''+01234567012345672915211#''"
      "connected_state\<lparr>Slewing := True, Tracking := True\<rparr>"]
  by (simp add: connected_state_def)

subsection \<open>Frames that are too short\<close>

lemma decoders_read_in_bounds:
  "Process_GEP_Response s st \<noteq> None \<and> Process_GLS_Response s st \<noteq> None"
  using Process_GEP_Response_defined [of s st] Process_GLS_Response_keeps_position [of s st]
  by auto

text \<open>
  Claim C4 as stated fails: a frame that is too short is not rejected. The frame \<^verbatim>\<open>#\<close>
  alone passes the validity check; the GEP decoder and the GLS decoder decode nothing of
  it and return true. A poll cycle whose queries are both answered by \<^verbatim>\<open>#\<close> therefore
  returns true, counts no error and marks the position valid, on a driver that has not
  decoded a position yet.
\<close>

theorem short_frame_reported_valid:
  "Process_GEP_Response ''#'' connected_state = Some (True, connected_state) \<and>
   Process_GLS_Response ''#'' connected_state = Some (True, connected_state) \<and>
   \<not> cTelescopeInfoValid connected_state \<and>
   SendCmdsPeriodic (\<lambda>cmd. ''#'') connected_state =
     Some (True, connected_state\<lparr>cTelescopeInfoValid := True\<rparr>)"
  by (simp add: SendCmdsPeriodic_def iOptron_SendCommand_def descriptor_valid_def c_str_def
      Process_GEP_Response_def Process_GLS_Response_def CheckForValidResponse_def rd_def
      connected_state_def)

text \<open>
  Claim C4, amended. A position frame that ends in \<^verbatim>\<open>#\<close> and is shorter than 20
  characters makes the GEP decoder read no byte at or beyond the length of the frame (the
  result is not \<open>None\<close>) and change nothing: it returns the state it was given. The GLS
  decoder does the same for a status frame shorter than 23 characters. What the decoder
  reports about such a frame is no part of the statement.
\<close>

theorem short_frame_read_in_bounds_state_unchanged:
  assumes "s \<noteq> []" and "last s = CHR ''#''"
  shows "(length s < 20 \<longrightarrow> (\<exists>v. Process_GEP_Response s st = Some (v, st))) \<and>
         (length s < 23 \<longrightarrow> (\<exists>v. Process_GLS_Response s st = Some (v, st)))"
  using assms Process_GEP_Response_short Process_GLS_Response_short by blast

theorem short_frame_read_in_bounds_state_unchanged_witness:
  "(\<exists>v. Process_GEP_Response ''+00000000000000000#'' connected_state =
          Some (v, connected_state)) \<and>
   (\<exists>v. Process_GLS_Response ''+0000000000000000000#'' connected_state =
          Some (v, connected_state))"
  using short_frame_read_in_bounds_state_unchanged [of "''+00000000000000000#''" connected_state]
    short_frame_read_in_bounds_state_unchanged [of "''+0000000000000000000#''" connected_state]
  by simp

subsection \<open>Printing decimal fields\<close>

lemma digit_char_props:
  assumes "d < 10"
  shows "isdigit (digit_char d)" and "(of_char (digit_char d) :: int) - 48 = int d"
proof -
  from assms have "d \<in> {0, 1, 2, 3, 4, 5, 6, 7, 8, 9}" by auto
  then show "isdigit (digit_char d)" and "(of_char (digit_char d) :: int) - 48 = int d"
    by (auto simp: digit_char_def isdigit_def)
qed

lemma positional_value_append:
  "positional_value (xs @ ys) = positional_value xs * 10 ^ length ys + positional_value ys"
  by (induction xs) (simp_all add: positional_value_Cons power_add algebra_simps)

lemma decimal_digits: "\<forall>c\<in>set (decimal n). isdigit c"
proof (induction n rule: decimal.induct)
  case (1 n)
  show ?case
  proof (cases "n < 10")
    case True
    then show ?thesis by (subst decimal.simps) (simp add: digit_char_props)
  next
    case False
    then show ?thesis using 1 by (subst decimal.simps) (simp add: digit_char_props)
  qed
qed

lemma decimal_value: "positional_value (decimal n) = int n"
proof (induction n rule: decimal.induct)
  case (1 n)
  show ?case
  proof (cases "n < 10")
    case True
    then show ?thesis
      by (subst decimal.simps) (simp add: positional_value_Cons digit_char_props)
  next
    case False
    then have "positional_value (decimal (n div 10)) = int (n div 10)" using 1 by simp
    moreover have "n mod 10 < 10" by simp
    ultimately show ?thesis using False
      by (subst decimal.simps)
        (simp add: positional_value_append positional_value_Cons digit_char_props zdiv_int zmod_int)
  qed
qed

lemma decimal_length: "n < 10 ^ k \<Longrightarrow> 0 < k \<Longrightarrow> length (decimal n) \<le> k"
proof (induction n arbitrary: k rule: decimal.induct)
  case (1 n)
  show ?case
  proof (cases "n < 10")
    case True
    then show ?thesis using 1(3) by (subst decimal.simps) simp
  next
    case False
    from 1(3) obtain j where k: "k = Suc j" by (cases k) auto
    with 1(2) False have "0 < j" by (cases j) auto
    moreover from 1(2) k have "n div 10 < 10 ^ j"
      by (simp add: less_mult_imp_div_less mult.commute)
    ultimately have "length (decimal (n div 10)) \<le> j" using 1(1) [OF False] by simp
    then show ?thesis using False k by (subst decimal.simps) simp
  qed
qed

lemma zero_pad_props:
  assumes "\<forall>c\<in>set ds. isdigit c" and "length ds \<le> w"
  shows "length (zero_pad w ds) = w" and "\<forall>c\<in>set (zero_pad w ds). isdigit c"
    and "positional_value (zero_pad w ds) = positional_value ds"
proof -
  show "length (zero_pad w ds) = w" using assms(2) by (simp add: zero_pad_def)
  show "\<forall>c\<in>set (zero_pad w ds). isdigit c"
    using assms(1) by (auto simp: zero_pad_def isdigit_def)
  have "positional_value (replicate k CHR ''0'') = 0" for k
    by (induction k) (simp_all add: positional_value_Cons)
  then show "positional_value (zero_pad w ds) = positional_value ds"
    by (simp add: zero_pad_def positional_value_append)
qed

lemma sprintf_0lld_field:
  assumes "0 \<le> n" and "n < 10 ^ w" and "0 < w"
  shows "length (sprintf_0lld w n) = w" and "\<forall>c\<in>set (sprintf_0lld w n). isdigit c"
    and "positional_value (sprintf_0lld w n) = n"
proof -
  have "nat n < 10 ^ w" using assms(1,2) by (simp add: nat_less_iff)
  then have len: "length (decimal (nat n)) \<le> w" using assms(3) by (rule decimal_length)
  have eq: "sprintf_0lld w n = zero_pad w (decimal (nat n))"
    using assms(1) by (simp add: sprintf_0lld_def)
  show "length (sprintf_0lld w n) = w"
    unfolding eq using decimal_digits len by (rule zero_pad_props)
  show "\<forall>c\<in>set (sprintf_0lld w n). isdigit c"
    unfolding eq using decimal_digits len by (rule zero_pad_props)
  show "positional_value (sprintf_0lld w n) = n"
    unfolding eq using zero_pad_props(3) [OF decimal_digits len] assms(1)
    by (simp add: decimal_value)
qed

lemma replicate_numeral_unfold:
  "replicate (numeral k) x = x # replicate (pred_numeral k) x"
  by (simp add: numeral_eq_Suc)

text \<open>The facts that let the simplifier round a given number to binary64.\<close>

lemmas binary64_eval =
  binary64_def scale_down.simps scale_up.simps round_half_even_def pow2_def Let_def
  dbl_add_def dbl_sub_def dbl_mul_def dbl_div_def

text \<open>The facts that let the simplifier run the encoder on given numbers.\<close>

lemmas encoder_eval =
  Telescope_SlewToRA_DEC_def Telescope_SyncToRA_DEC_def binary64_eval
  double_to_int64_def trunc_def AddCmdToQueue_def sprintf_0lld_def zero_pad_def decimal.simps
  digit_char_def replicate_numeral_unfold

subsection \<open>Encoding and decoding a position\<close>

lemma Process_GEP_Response_fields:
  assumes "length D8 = 8" and "\<forall>c\<in>set D8. isdigit c"
    and "length D9 = 9" and "\<forall>c\<in>set D9. isdigit c"
    and "2 \<le> length t" and "last t = CHR ''#''"
  shows "Process_GEP_Response (sg # D8 @ D9 @ t) st =
     Some (True,
       (let dec_degrees = real_of_int (positional_value D8 * (if sg = CHR ''-'' then - 1 else 1))
                            / (3600 * 100);
            ra_hours = real_of_int (positional_value D9) / (15 * 3600 * 100);
            st = (if dec_degrees \<ge> - 90 \<and> dec_degrees \<le> 90
                  then st\<lparr>Declination := dec_degrees\<rparr> else st);
            st = (if ra_hours \<ge> 0 \<and> ra_hours < 24
                  then st\<lparr>RightAscension := ra_hours\<rparr> else st)
        in if length t < 14 then st\<lparr>cTelescopeDEC_String := sg # D8 @ D9 @ t\<rparr> else st))"
proof -
  let ?s = "sg # D8 @ D9 @ t"
  from assms(5) have ne: "t \<noteq> []" by auto
  have l: "last ?s = CHR ''#''" using ne assms(6) by simp
  have n: "20 \<le> length ?s" using assms(1,3,5) by simp
  have t8: "take 8 (drop 1 ?s) = D8" using assms(1) by simp
  have t9: "take 9 (drop 9 ?s) = D9" using assms(1,3) by simp
  have a8: "atoll (take 8 (drop 1 ?s)) = Some (positional_value D8)"
    unfolding t8 using assms(2) by (rule atoll_digits) (simp add: assms(1))
  have a9: "atoll (take 9 (drop 9 ?s)) = Some (positional_value D9)"
    unfolding t9 using assms(4) by (rule atoll_digits) (simp add: assms(3))
  have len: "(length ?s < 32) = (length t < 14)" using assms(1,3) by auto
  show ?thesis
    unfolding Process_GEP_Response_long [OF l n a8 a9] len
    by (simp add: Let_def)
qed

text \<open>
  The decoder inverts the printing of the encoder. Let \<open>d\<close> be a declination and \<open>r\<close> a
  right ascension counted in units of 0.01 arc-second, \<open>d\<close> from -32400000 to 32400000
  and \<open>r\<close> from 0 to 129599999. Print \<open>d\<close> as the encoder does (the sign, then 8 digits
  of the magnitude) and \<open>r\<close> as 9 digits, and let a rest of at least two characters
  follow that ends in \<^verbatim>\<open>#\<close>, as the two status digits and the terminator of a position
  frame do. The GEP decoder then stores exactly \<open>d / 360000\<close> degrees and \<open>r / 5400000\<close>
  hours.
\<close>

lemma printed_fields_decode_back:
  assumes "- 32400000 \<le> d" and "d \<le> 32400000" and "0 \<le> r" and "r < 129600000"
    and "2 \<le> length t" and "last t = CHR ''#''"
  shows "\<exists>st'. Process_GEP_Response
            ((if d \<ge> 0 then CHR ''+'' # sprintf_0lld 8 d else CHR ''-'' # sprintf_0lld 8 (- d)) @
             sprintf_0lld 9 r @ t) st = Some (True, st') \<and>
          Declination st' = real_of_int d / 360000 \<and>
          RightAscension st' = real_of_int r / 5400000"
proof -
  have r9: "r < 10 ^ 9" using assms(4) by simp
  have ra: "length (sprintf_0lld 9 r) = 9" "\<forall>c\<in>set (sprintf_0lld 9 r). isdigit c"
    "positional_value (sprintf_0lld 9 r) = r"
    by (rule sprintf_0lld_field [OF assms(3) r9], simp)+
  have rr: "0 \<le> real_of_int r / 5400000" "real_of_int r / 5400000 < 24"
    using assms(3,4) by simp_all
  show ?thesis
  proof (cases "d \<ge> 0")
    case True
    have d8: "d < 10 ^ 8" using assms(2) by simp
    have dec: "length (sprintf_0lld 8 d) = 8" "\<forall>c\<in>set (sprintf_0lld 8 d). isdigit c"
      "positional_value (sprintf_0lld 8 d) = d"
      by (rule sprintf_0lld_field [OF True d8], simp)+
    have dr: "- 90 \<le> real_of_int d / 360000" "real_of_int d / 360000 \<le> 90"
      using True assms(2) by simp_all
    show ?thesis
      using True dr rr
      by (simp add: Process_GEP_Response_fields [OF dec(1,2) ra(1,2) assms(5,6)] dec(3) ra(3)
          Let_def)
  next
    case False
    then have nn: "0 \<le> - d" by simp
    have d8: "- d < 10 ^ 8" using assms(1) by simp
    have dec: "length (sprintf_0lld 8 (- d)) = 8" "\<forall>c\<in>set (sprintf_0lld 8 (- d)). isdigit c"
      "positional_value (sprintf_0lld 8 (- d)) = - d"
      by (rule sprintf_0lld_field [OF nn d8], simp)+
    have dr: "- 90 \<le> real_of_int d / 360000" "real_of_int d / 360000 \<le> 90"
      using False assms(1) by simp_all
    show ?thesis
      using False dr rr
      by (simp add: Process_GEP_Response_fields [OF dec(1,2) ra(1,2) assms(5,6)] dec(3) ra(3)
          Let_def)
  qed
qed


subsection \<open>The commands for a target\<close>

lemma Telescope_SlewToRA_DEC_common:
  "Telescope_SlewToRA_DEC ra dec st =
     (if \<not> Connected st then Some (kASCOM_Err_NotConnected, st)
      else if \<not> cTelescopeConnectionOpen st then Some (kASCOM_Err_NotConnected, st)
      else Some (kASCOM_Err_Success,
             (AddCmdToQueue '':MS1#'' (queue_target_coordinates ra dec st))\<lparr>Slewing := True\<rparr>))"
  by (simp add: Telescope_SlewToRA_DEC_def queue_target_coordinates_def Let_def)

lemma Telescope_SyncToRA_DEC_common:
  "Telescope_SyncToRA_DEC ra dec st =
     (if \<not> Connected st then Some (kASCOM_Err_NotConnected, st)
      else if \<not> cTelescopeConnectionOpen st then Some (kASCOM_Err_NotConnected, st)
      else Some (kASCOM_Err_Success,
             AddCmdToQueue '':CM#'' (queue_target_coordinates ra dec st)))"
  by (simp add: Telescope_SyncToRA_DEC_def queue_target_coordinates_def Let_def)

lemma queue_target_coordinates_clamp:
  "queue_target_coordinates ra dec st =
     st\<lparr>cCmdQueue := cCmdQueue st @
       ['':SRA'' @ sprintf_0lld 9 (min 129600000 (max 0
           (double_to_int64 (dbl_mul (dbl_mul (dbl_mul ra 15) 3600) 100)))) @ ''#'',
        (let d = min 32400000 (max (- 32400000)
                   (double_to_int64 (dbl_mul (dbl_mul dec 3600) 100)))
         in if d \<ge> 0 then '':Sds+'' @ sprintf_0lld 8 d @ ''#''
            else '':Sds-'' @ sprintf_0lld 8 (- d) @ ''#'')]\<rparr>"
proof -
  have clamp: "(if (if x < lo then lo else x) > hi then hi else (if x < lo then lo else x)) =
      min hi (max lo x)" if "lo \<le> hi" for x lo hi :: int
    using that by (simp add: min_def max_def)
  show ?thesis
    unfolding queue_target_coordinates_def Let_def clamp
    by (simp add: AddCmdToQueue_def clamp)
qed

text \<open>
  The shape of the commands, for every target. On an open connection slew and sync
  succeed. Each appends to the queue an RA command that is \<^verbatim>\<open>:SRA\<close>, exactly 9 decimal
  digits and \<^verbatim>\<open>#\<close>, the digits denoting the converted count clamped into 0 to
  129600000, then a Dec command that is \<^verbatim>\<open>:Sds\<close>, a sign, exactly 8 decimal digits and
  \<^verbatim>\<open>#\<close>, sign and digits denoting the converted count clamped into -32400000 to
  32400000, and at last \<^verbatim>\<open>:MS1#\<close> (slew) or \<^verbatim>\<open>:CM#\<close> (sync). The converted count is the
  scaled double, each product rounded, converted to \<^verbatim>\<open>int64_t\<close>.
\<close>

lemma target_commands_well_formed:
  assumes "Connected st" and "cTelescopeConnectionOpen st"
  shows "\<exists>raDigits decDigits sgn.
     length raDigits = 9 \<and> (\<forall>c\<in>set raDigits. isdigit c) \<and>
     positional_value raDigits =
       min 129600000 (max 0 (double_to_int64 (dbl_mul (dbl_mul (dbl_mul ra 15) 3600) 100))) \<and>
     length decDigits = 8 \<and> (\<forall>c\<in>set decDigits. isdigit c) \<and>
     (sgn = CHR ''+'' \<or> sgn = CHR ''-'') \<and>
     (if sgn = CHR ''-'' then - 1 else 1) * positional_value decDigits =
        min 32400000 (max (- 32400000) (double_to_int64 (dbl_mul (dbl_mul dec 3600) 100))) \<and>
     Telescope_SlewToRA_DEC ra dec st =
       Some (kASCOM_Err_Success,
             st\<lparr>cCmdQueue := cCmdQueue st @
                   ['':SRA'' @ raDigits @ ''#'', '':Sds'' @ sgn # decDigits @ ''#'', '':MS1#''],
                Slewing := True\<rparr>) \<and>
     Telescope_SyncToRA_DEC ra dec st =
       Some (kASCOM_Err_Success,
             st\<lparr>cCmdQueue := cCmdQueue st @
                   ['':SRA'' @ raDigits @ ''#'', '':Sds'' @ sgn # decDigits @ ''#'', '':CM#'']\<rparr>)"
proof -
  define a where
    "a = min 129600000 (max 0 (double_to_int64 (dbl_mul (dbl_mul (dbl_mul ra 15) 3600) 100)))"
  define d where
    "d = min 32400000 (max (- 32400000) (double_to_int64 (dbl_mul (dbl_mul dec 3600) 100)))"
  define sgn where "sgn = (if d \<ge> 0 then CHR ''+'' else CHR ''-'')"
  have a: "0 \<le> a" "a < 10 ^ 9" "0 < (9::nat)" by (simp_all add: a_def)
  have d: "0 \<le> \<bar>d\<bar>" "\<bar>d\<bar> < 10 ^ 8" "0 < (8::nat)" by (simp_all add: d_def)
  have q: "queue_target_coordinates ra dec st =
     st\<lparr>cCmdQueue := cCmdQueue st @
       ['':SRA'' @ sprintf_0lld 9 a @ ''#'', '':Sds'' @ sgn # sprintf_0lld 8 \<bar>d\<bar> @ ''#'']\<rparr>"
    unfolding queue_target_coordinates_clamp a_def [symmetric] d_def [symmetric] Let_def sgn_def
    by simp
  have ra_field: "length (sprintf_0lld 9 a) = 9" "\<forall>c\<in>set (sprintf_0lld 9 a). isdigit c"
    "positional_value (sprintf_0lld 9 a) = a"
    by (rule sprintf_0lld_field [OF a])+
  have dec_field: "length (sprintf_0lld 8 \<bar>d\<bar>) = 8" "\<forall>c\<in>set (sprintf_0lld 8 \<bar>d\<bar>). isdigit c"
    "positional_value (sprintf_0lld 8 \<bar>d\<bar>) = \<bar>d\<bar>"
    by (rule sprintf_0lld_field [OF d])+
  have sgn: "sgn = CHR ''+'' \<or> sgn = CHR ''-''" by (simp add: sgn_def)
  have val: "(if sgn = CHR ''-'' then - 1 else 1) * positional_value (sprintf_0lld 8 \<bar>d\<bar>) = d"
    unfolding dec_field(3) by (simp add: sgn_def)
  have slew: "Telescope_SlewToRA_DEC ra dec st =
       Some (kASCOM_Err_Success,
             st\<lparr>cCmdQueue := cCmdQueue st @
                   ['':SRA'' @ sprintf_0lld 9 a @ ''#'', '':Sds'' @ sgn # sprintf_0lld 8 \<bar>d\<bar> @ ''#'',
                    '':MS1#''],
                Slewing := True\<rparr>)"
    using assms(1,2) by (simp add: Telescope_SlewToRA_DEC_common q AddCmdToQueue_def)
  have sync: "Telescope_SyncToRA_DEC ra dec st =
       Some (kASCOM_Err_Success,
             st\<lparr>cCmdQueue := cCmdQueue st @
                   ['':SRA'' @ sprintf_0lld 9 a @ ''#'', '':Sds'' @ sgn # sprintf_0lld 8 \<bar>d\<bar> @ ''#'',
                    '':CM#'']\<rparr>)"
    using assms(1,2) by (simp add: Telescope_SyncToRA_DEC_common q AddCmdToQueue_def)
  show ?thesis
    unfolding a_def [symmetric] d_def [symmetric]
    by (intro exI [of _ "sprintf_0lld 9 a"] exI [of _ "sprintf_0lld 8 \<bar>d\<bar>"] exI [of _ sgn]
        conjI ra_field dec_field sgn val slew sync)
qed

text \<open>
  A target a little out of range, 30 hours and -100 degrees, is clamped to the boundary on
  its side.
\<close>

lemma out_of_range_target_commands:
  "Telescope_SlewToRA_DEC 30 (- 100) connected_state =
     Some (kASCOM_Err_Success,
           connected_state\<lparr>cCmdQueue := ['':SRA129600000#'', '':Sds-32400000#'', '':MS1#''],
             Slewing := True\<rparr>)"
  by (simp add: encoder_eval connected_state_def)

text \<open>
  The digits are those of the rounded products, truncated. For the doubles nearest to
  2.27 hours and -89.911 degrees the products end just inside 12258000 and -32367960.
\<close>

lemma rounded_products_are_truncated:
  "Telescope_SlewToRA_DEC (binary64 (227 / 100)) (binary64 (- 89911 / 1000)) connected_state =
     Some (kASCOM_Err_Success,
           connected_state\<lparr>cCmdQueue := ['':SRA012257999#'', '':Sds-32367959#'', '':MS1#''],
             Slewing := True\<rparr>)"
  by (simp add: encoder_eval connected_state_def)

text \<open>
  Claim C7 asks that every finite target is encoded with the scaled value clamped into
  its range, a value out of range going to the boundary. The code converts the scaled
  double to \<^verbatim>\<open>int64_t\<close> first and clamps the integer. A right ascension of \<open>10 ^ 13\<close>
  hours scales to \<open>5.4 * 10 ^ 19\<close>, above \<open>2 ^ 63\<close>: the conversion delivers \<open>- 2 ^ 63\<close>,
  the test for a negative count makes 0 of it, and slew and sync queue \<^verbatim>\<open>:SRA000000000#\<close>,
  the boundary on the other side of the range from the value, where 129600000 is the
  boundary the value lies beyond.
\<close>

theorem cast_before_clamp_takes_wrong_boundary:
  "dbl_mul (dbl_mul (dbl_mul (10 ^ 13) 15) 3600) 100 = 54 * 10 ^ 18 \<and>
   double_to_int64 (54 * 10 ^ 18) = - (2 ^ 63) \<and>
   Telescope_SlewToRA_DEC (10 ^ 13) 0 connected_state =
     Some (kASCOM_Err_Success,
           connected_state\<lparr>cCmdQueue := ['':SRA000000000#'', '':Sds+00000000#'', '':MS1#''],
             Slewing := True\<rparr>) \<and>
   Telescope_SyncToRA_DEC (10 ^ 13) 0 connected_state =
     Some (kASCOM_Err_Success,
           connected_state\<lparr>cCmdQueue := ['':SRA000000000#'', '':Sds+00000000#'', '':CM#'']\<rparr>)"
  by (simp add: encoder_eval connected_state_def)

text \<open>
  Claim C8 as stated fails: 12.5 hours are 67500000 units of 0.01 arc-second, printed
  with 9 digits as \<^verbatim>\<open>067500000\<close>. The string \<^verbatim>\<open>:SRA675000000#\<close> of the claim, ten times
  that value, is not among the queued commands.
\<close>

theorem scenario_ra_command_is_zero_padded:
  "Telescope_SlewToRA_DEC (25 / 2) (- 133 / 4) connected_state =
     Some (kASCOM_Err_Success,
           connected_state\<lparr>cCmdQueue := ['':SRA067500000#'', '':Sds-11970000#'', '':MS1#''],
             Slewing := True\<rparr>) \<and>
   '':SRA675000000#'' \<notin> set ['':SRA067500000#'', '':Sds-11970000#'', '':MS1#'']"
  by (simp add: encoder_eval connected_state_def)

text \<open>
  Claim C8, amended. On an open connection the target RA = 12.5 hours, Dec = -33.25
  degrees makes slew and sync append exactly \<^verbatim>\<open>:SRA067500000#\<close> and \<^verbatim>\<open>:Sds-11970000#\<close>
  to the queue, followed by \<^verbatim>\<open>:MS1#\<close> for slew and \<^verbatim>\<open>:CM#\<close> for sync.
\<close>

theorem scenario_target_commands:
  assumes "Connected st" and "cTelescopeConnectionOpen st"
  shows "Telescope_SlewToRA_DEC (25 / 2) (- 133 / 4) st =
     Some (kASCOM_Err_Success,
           st\<lparr>cCmdQueue := cCmdQueue st @ ['':SRA067500000#'', '':Sds-11970000#'', '':MS1#''],
              Slewing := True\<rparr>) \<and>
   Telescope_SyncToRA_DEC (25 / 2) (- 133 / 4) st =
     Some (kASCOM_Err_Success,
           st\<lparr>cCmdQueue := cCmdQueue st @ ['':SRA067500000#'', '':Sds-11970000#'', '':CM#'']\<rparr>)"
  using assms by (simp add: encoder_eval)

theorem scenario_target_commands_witness:
  "Telescope_SyncToRA_DEC (25 / 2) (- 133 / 4) connected_state =
     Some (kASCOM_Err_Success,
           connected_state\<lparr>cCmdQueue := ['':SRA067500000#'', '':Sds-11970000#'', '':CM#'']\<rparr>)"
  using scenario_target_commands [of connected_state]
  by (simp add: connected_state_def)

subsection \<open>Rounding and the loops of the RA parser\<close>

text \<open>
  Below \<open>2 ^ 53\<close> in magnitude the doubles are at most 1 apart, so rounding moves a
  number by at most one half.
\<close>

lemma pow2_pos: "0 < pow2 e"
  by (simp add: pow2_def)

lemma pow2_pred: "2 * pow2 (e - 1) = pow2 e"
proof (cases "e \<ge> 1")
  case True
  then have "nat e = Suc (nat (e - 1))" by simp
  then show ?thesis using True by (simp add: pow2_def)
next
  case False
  then have "nat (- (e - 1)) = Suc (nat (- e))" by simp
  then show ?thesis using False by (simp add: pow2_def)
qed

lemma pow2_le_one: "e \<le> 0 \<Longrightarrow> pow2 e \<le> 1"
  by (cases "e = 0") (simp_all add: pow2_def field_simps)

lemma scale_up_invariant:
  "scale_up y e = (y', e') \<Longrightarrow> y' * pow2 e' = y * pow2 e \<and> e' \<le> e"
proof (induction y e rule: scale_up.induct)
  case (1 y e)
  show ?case
  proof (cases "y < 2 ^ 52 \<and> e > - 1074")
    case True
    then have "scale_up (2 * y) (e - 1) = (y', e')"
      using "1.prems" by (simp add: scale_up.simps)
    from "1.IH" [OF True this] have "y' * pow2 e' = 2 * y * pow2 (e - 1)" and "e' \<le> e - 1"
      by simp_all
    then show ?thesis using pow2_pred [of e] by (simp add: algebra_simps)
  next
    case False
    then have "scale_up y e = (y, e)" by (subst scale_up.simps) auto
    then show ?thesis using "1.prems" by simp
  qed
qed

lemma round_half_even_near: "\<bar>real_of_int (round_half_even y) - y\<bar> \<le> 1 / 2"
proof -
  have "real_of_int \<lfloor>y\<rfloor> \<le> y" and "y < real_of_int \<lfloor>y\<rfloor> + 1" by linarith+
  then show ?thesis by (auto simp: round_half_even_def Let_def)
qed

lemma binary64_near:
  assumes "\<bar>x\<bar> < 2 ^ 53"
  shows "\<bar>binary64 x - x\<bar> \<le> 1 / 2"
proof (cases "x = 0")
  case True
  then show ?thesis by (simp add: binary64_def)
next
  case False
  have sd: "scale_down \<bar>x\<bar> 0 = (\<bar>x\<bar>, 0)" using assms by (simp add: scale_down.simps)
  obtain y e where su: "scale_up \<bar>x\<bar> 0 = (y, e)" by (cases "scale_up \<bar>x\<bar> 0")
  from scale_up_invariant [OF su] have inv: "y * pow2 e = \<bar>x\<bar>" and e: "e \<le> 0"
    by (simp_all add: pow2_def)
  define m where "m = real_of_int (round_half_even y) * pow2 e"
  have "m - \<bar>x\<bar> = (real_of_int (round_half_even y) - y) * pow2 e"
    unfolding m_def inv [symmetric] by (simp add: algebra_simps)
  then have "\<bar>m - \<bar>x\<bar>\<bar> = \<bar>real_of_int (round_half_even y) - y\<bar> * pow2 e"
    using pow2_pos [of e] by (simp add: abs_mult)
  also have "\<dots> \<le> (1 / 2) * 1"
    by (intro mult_mono round_half_even_near pow2_le_one e) (use pow2_pos [of e] in simp_all)
  finally have near: "\<bar>m - \<bar>x\<bar>\<bar> \<le> 1 / 2" by simp
  have b: "binary64 x = (if x < 0 then - m else m)"
    using False by (simp add: binary64_def sd su m_def Let_def)
  show ?thesis
  proof (cases "x < 0")
    case True
    then have "binary64 x - x = - (m - \<bar>x\<bar>)" unfolding b by simp
    then show ?thesis using near by (simp only: abs_minus_cancel)
  next
    case False
    then have "binary64 x - x = m - \<bar>x\<bar>" unfolding b by simp
    then show ?thesis using near by simp
  qed
qed


lemma binary64_bound:
  assumes "\<bar>x\<bar> \<le> B" and "B < 2 ^ 53"
  shows "\<bar>binary64 x\<bar> \<le> B + 1 / 2"
proof -
  have "\<bar>x\<bar> < 2 ^ 53" using assms by simp
  from binary64_near [OF this] show ?thesis using assms(1) by linarith
qed

text \<open>
  The two loops end, whatever double below \<open>2 ^ 53\<close> in magnitude they start from: a
  step of 24 is far more than the rounding can take back.
\<close>

lemma norm_down_returns:
  assumes "x < 2 ^ 53" and "- (2 ^ 53) < x"
  shows "\<exists>r. norm_down x = Some r \<and> r < 24 \<and> - (2 ^ 53) < r"
  using assms
proof (induction "nat \<lfloor>x\<rfloor>" arbitrary: x rule: less_induct)
  case less
  show ?case
  proof (cases "x \<ge> 24")
    case False
    then have "norm_down x = Some x" by (subst norm_down.simps) simp
    then show ?thesis using False less.prems by simp
  next
    case True
    define y where "y = dbl_sub x 24"
    have "\<bar>x - 24\<bar> < 2 ^ 53" using True less.prems by simp
    from binary64_near [OF this] have near: "\<bar>y - (x - 24)\<bar> \<le> 1 / 2"
      by (simp add: y_def dbl_sub_def)
    then have y: "y \<le> x - 47 / 2" "- (1 / 2) \<le> y" using True by linarith+
    have "real_of_int \<lfloor>y\<rfloor> \<le> y" and "x < real_of_int \<lfloor>x\<rfloor> + 1" by linarith+
    then have "real_of_int \<lfloor>y\<rfloor> < real_of_int \<lfloor>x\<rfloor>" using y(1) by linarith
    moreover have "0 < \<lfloor>x\<rfloor>" using True by linarith
    ultimately have "nat \<lfloor>y\<rfloor> < nat \<lfloor>x\<rfloor>" by simp
    moreover have "y < 2 ^ 53" using y(1) less.prems(1) by linarith
    moreover have "- (2 ^ 53) < y" using y(2) by simp
    ultimately obtain r where "norm_down y = Some r" and "r < 24" and "- (2 ^ 53) < r"
      using less.hyps by blast
    moreover have "norm_down x = norm_down y"
      using True by (subst norm_down.simps) (simp add: y_def)
    ultimately show ?thesis by simp
  qed
qed

lemma norm_up_returns:
  assumes "- (2 ^ 53) < x"
  shows "\<exists>r. norm_up x = Some r \<and> 0 \<le> r"
  using assms
proof (induction "nat \<lceil>- x\<rceil>" arbitrary: x rule: less_induct)
  case less
  show ?case
  proof (cases "x < 0")
    case False
    then have "norm_up x = Some x" by (subst norm_up.simps) simp
    then show ?thesis using False by simp
  next
    case True
    define y where "y = dbl_add x 24"
    have "\<bar>x + 24\<bar> < 2 ^ 53" using True less.prems by simp
    from binary64_near [OF this] have near: "\<bar>y - (x + 24)\<bar> \<le> 1 / 2"
      by (simp add: y_def dbl_add_def)
    then have y: "x + 47 / 2 \<le> y" by linarith
    have "- y \<le> real_of_int \<lceil>- y\<rceil>" and "real_of_int \<lceil>- y\<rceil> < - y + 1"
      and "- x \<le> real_of_int \<lceil>- x\<rceil>" by linarith+
    then have "real_of_int \<lceil>- y\<rceil> < real_of_int \<lceil>- x\<rceil>" using y by linarith
    moreover have "0 < \<lceil>- x\<rceil>" using True by linarith
    ultimately have "nat \<lceil>- y\<rceil> < nat \<lceil>- x\<rceil>" by simp
    moreover have "- (2 ^ 53) < y" using y less.prems by linarith
    ultimately obtain r where "norm_up y = Some r" and "0 \<le> r"
      using less.hyps by blast
    moreover have "norm_up x = norm_up y"
      using True by (subst norm_up.simps) (simp add: y_def)
    ultimately show ?thesis by simp
  qed
qed

lemma hours_sum_bound:
  fixes h m s :: int
  assumes "\<bar>h\<bar> \<le> 2 ^ 31" and "\<bar>m\<bar> \<le> 2 ^ 31" and "\<bar>s\<bar> \<le> 2 ^ 31"
  shows "\<bar>dbl_add (dbl_add (real_of_int h) (dbl_div (dbl_mul 1 (real_of_int m)) 60))
            (dbl_div (dbl_mul 1 (real_of_int s)) 3600)\<bar> < 2 ^ 53"
proof -
  have part: "\<bar>dbl_div (dbl_mul 1 (real_of_int n)) d\<bar> \<le> 2 ^ 31"
    if "\<bar>n\<bar> \<le> 2 ^ 31" and "60 \<le> d" for n :: int and d :: real
  proof -
    have "real_of_int \<bar>n\<bar> \<le> real_of_int (2 ^ 31)"
      using that(1) by (simp only: of_int_le_iff)
    then have "\<bar>real_of_int n\<bar> \<le> 2 ^ 31" by simp
    then have "\<bar>1 * real_of_int n\<bar> \<le> 2 ^ 31" by simp
    then have a: "\<bar>dbl_mul 1 (real_of_int n)\<bar> \<le> 2 ^ 31 + 1 / 2"
      unfolding dbl_mul_def by (rule binary64_bound) simp
    have "\<bar>dbl_mul 1 (real_of_int n) / d\<bar> = \<bar>dbl_mul 1 (real_of_int n)\<bar> / d"
      using that(2) by simp
    also have "\<dots> \<le> (2 ^ 31 + 1 / 2) / d"
      by (rule divide_right_mono [OF a]) (use that(2) in simp)
    also have "\<dots> \<le> (2 ^ 31 + 1 / 2) / 60"
      by (rule divide_left_mono) (use that(2) in simp_all)
    also have "\<dots> \<le> 2 ^ 30" by simp
    finally have "\<bar>dbl_mul 1 (real_of_int n) / d\<bar> \<le> 2 ^ 30" .
    then have "\<bar>dbl_div (dbl_mul 1 (real_of_int n)) d\<bar> \<le> 2 ^ 30 + 1 / 2"
      unfolding dbl_div_def by (rule binary64_bound) simp
    then show ?thesis by simp
  qed
  have "real_of_int \<bar>h\<bar> \<le> real_of_int (2 ^ 31)"
    using assms(1) by (simp only: of_int_le_iff)
  then have h: "\<bar>real_of_int h\<bar> \<le> 2 ^ 31" by simp
  have "\<bar>real_of_int h + dbl_div (dbl_mul 1 (real_of_int m)) 60\<bar> \<le> 2 ^ 32"
    using h part [OF assms(2), of 60] by simp
  then have c: "\<bar>dbl_add (real_of_int h) (dbl_div (dbl_mul 1 (real_of_int m)) 60)\<bar> \<le> 2 ^ 32 + 1 / 2"
    unfolding dbl_add_def by (rule binary64_bound) simp
  have "\<bar>dbl_add (real_of_int h) (dbl_div (dbl_mul 1 (real_of_int m)) 60) +
          dbl_div (dbl_mul 1 (real_of_int s)) 3600\<bar> \<le> 2 ^ 33"
    using c part [OF assms(3), of 3600] by simp
  then have "\<bar>dbl_add (dbl_add (real_of_int h) (dbl_div (dbl_mul 1 (real_of_int m)) 60))
            (dbl_div (dbl_mul 1 (real_of_int s)) 3600)\<bar> \<le> 2 ^ 33 + 1 / 2"
    unfolding dbl_add_def [of "dbl_add (real_of_int h) (dbl_div (dbl_mul 1 (real_of_int m)) 60)"]
    by (rule binary64_bound) simp
  then show ?thesis by simp
qed

lemma hours_loops_return:
  fixes h m s :: int
  assumes "\<bar>h\<bar> \<le> 2 ^ 31" and "\<bar>m\<bar> \<le> 2 ^ 31" and "\<bar>s\<bar> \<le> 2 ^ 31"
  shows "\<exists>r. norm_down (dbl_add (dbl_add (real_of_int h) (dbl_div (dbl_mul 1 (real_of_int m)) 60))
            (dbl_div (dbl_mul 1 (real_of_int s)) 3600)) \<bind> norm_up = Some r \<and> 0 \<le> r"
proof -
  define x where "x = dbl_add (dbl_add (real_of_int h) (dbl_div (dbl_mul 1 (real_of_int m)) 60))
            (dbl_div (dbl_mul 1 (real_of_int s)) 3600)"
  have "\<bar>x\<bar> < 2 ^ 53" unfolding x_def by (rule hours_sum_bound [OF assms])
  then have "x < 2 ^ 53" and "- (2 ^ 53) < x" by linarith+
  from norm_down_returns [OF this] obtain r1 where r1: "norm_down x = Some r1" "- (2 ^ 53) < r1"
    by blast
  from norm_up_returns [OF r1(2)] obtain r where "norm_up r1 = Some r" "0 \<le> r" by blast
  then show ?thesis unfolding x_def [symmetric] using r1(1) by simp
qed

text \<open>
  The parser returns a result for every string in which \<^verbatim>\<open>atoi\<close> meets no number that
  is too large for an \<^verbatim>\<open>int\<close>: the sum of the three fields is below \<open>2 ^ 53\<close> then,
  and the loops end.
\<close>

lemma atoi_bound: "atoi p = Some v \<Longrightarrow> \<bar>v\<bar> \<le> 2 ^ 31"
  by (auto simp: atoi_def Let_def split: if_splits)

lemma skip_digits_drop: "\<exists>k. skip_digits s = drop k s"
proof (induction s)
  case Nil
  then show ?case by simp
next
  case (Cons c cs)
  then obtain k where k: "skip_digits cs = drop k cs" by blast
  show ?case
  proof (cases "isdigit c")
    case True
    then have "skip_digits (c # cs) = drop (Suc k) (c # cs)" using k by simp
    then show ?thesis by blast
  next
    case False
    then have "skip_digits (c # cs) = drop 0 (c # cs)" by simp
    then show ?thesis by blast
  qed
qed

lemma iOptron_ParseRA_returns:
  assumes "\<And>n. atoi (drop n s) \<noteq> None"
  shows "\<exists>r. iOptron_ParseRA s = Some r \<and> 0 \<le> r"
proof -
  obtain k where k: "skip_digits s = drop k s" using skip_digits_drop by blast
  obtain k' where "skip_digits (drop (Suc k) s) = drop k' (drop (Suc k) s)"
    using skip_digits_drop by blast
  then have k': "skip_digits (drop (Suc k) s) = drop (Suc (k' + k)) s" by simp
  obtain h where h: "atoi s = Some h" using assms [of 0] by auto
  obtain m where m: "atoi (drop (Suc k) s) = Some m" using assms [of "Suc k"] by auto
  obtain sec where sec: "atoi (drop (Suc (Suc (k' + k))) s) = Some sec"
    using assms [of "Suc (Suc (k' + k))"] by auto
  have t1: "tl (drop k s) = drop (Suc k) s" by (simp add: drop_Suc tl_drop)
  have t2: "tl (drop (Suc (k' + k)) s) = drop (Suc (Suc (k' + k))) s"
    by (simp add: drop_Suc tl_drop)
  note b = atoi_bound [OF h] atoi_bound [OF m] atoi_bound [OF sec]
  have z: "\<bar>0::int\<bar> \<le> 2 ^ 31" by simp
  show ?thesis
    using hours_loops_return [OF b(1) b(2) b(3)] hours_loops_return [OF b(1) b(2) z]
      hours_loops_return [OF b(1) z z]
    by (auto simp: iOptron_ParseRA_def CheckForValidResponse_eq k k' h m sec t1 t2 Let_def)
qed

lemma Process_RA_Response_returns:
  assumes "\<And>n. atoi (drop n s) \<noteq> None"
  shows "\<exists>v st'. Process_RA_Response s st = Some (v, st')"
proof -
  obtain r where "iOptron_ParseRA s = Some r" using iOptron_ParseRA_returns [OF assms] by blast
  then show ?thesis by (auto simp: Process_RA_Response_def CheckForValidResponse_eq Let_def)
qed

subsection \<open>The sexagesimal RA parser\<close>

lemma digits_val_stop:
  "t = [] \<or> \<not> isdigit (hd t) \<Longrightarrow> digits_val acc t = acc"
  by (cases t) auto

lemma digits_val_field:
  assumes "\<forall>c\<in>set ds. isdigit c" and "t = [] \<or> \<not> isdigit (hd t)"
  shows "digits_val acc (ds @ t) = acc * 10 ^ length ds + positional_value ds"
  using assms(1)
proof (induction ds arbitrary: acc)
  case Nil
  then show ?case using digits_val_stop [OF assms(2)] by simp
next
  case (Cons c cs)
  then show ?case by (simp add: positional_value_Cons algebra_simps)
qed

lemma field_end_stop: "field_end t \<Longrightarrow> t = [] \<or> \<not> isdigit (hd t)"
  by (simp add: field_end_def)

lemma colon_field_end [simp]: "field_end (CHR '':'' # t)"
  by (simp add: field_end_def isdigit_def isspace_def)

lemma strtol_val_field:
  assumes "\<forall>c\<in>set ds. isdigit c" and "field_end t"
  shows "strtol_val (ds @ t) = positional_value ds"
proof -
  from assms(2) obtain c cs where t: "t = c # cs" and c: "\<not> isdigit c" "\<not> isspace c"
    "c \<noteq> CHR ''+''" "c \<noteq> CHR ''-''"
    by (cases t) (auto simp: field_end_def)
  have stop: "t = [] \<or> \<not> isdigit (hd t)" using t c by simp
  show ?thesis
  proof (cases ds)
    case Nil
    then show ?thesis using t c by (simp add: strtol_val_def)
  next
    case (Cons e es)
    with assms(1) have "isdigit e" by simp
    then have "\<not> isspace e" "e \<noteq> CHR ''-''" "e \<noteq> CHR ''+''"
      using isdigit_not_space_sign by blast+
    then have "strtol_val (ds @ t) = digits_val 0 (ds @ t)"
      using Cons by (simp add: strtol_val_def)
    then show ?thesis using digits_val_field [OF assms(1) stop, of 0] by simp
  qed
qed

lemma atoi_field:
  assumes "\<forall>c\<in>set ds. isdigit c" and "field_end t" and "positional_value ds < 2 ^ 31"
  shows "atoi (ds @ t) = Some (positional_value ds)"
proof -
  have "0 \<le> positional_value ds" using positional_value_bounds [OF assms(1)] by simp
  then show ?thesis using assms(3) by (simp add: atoi_def strtol_val_field [OF assms(1,2)])
qed

lemma skip_digits_stop: "t = [] \<or> \<not> isdigit (hd t) \<Longrightarrow> skip_digits t = t"
  by (cases t) auto

lemma skip_digits_field:
  "\<forall>c\<in>set ds. isdigit c \<Longrightarrow> t = [] \<or> \<not> isdigit (hd t) \<Longrightarrow> skip_digits (ds @ t) = t"
  by (induction ds) (simp_all add: skip_digits_stop)

lemma deref_Cons [simp]: "deref (c # cs) = c"
  by (simp add: deref_def)

text \<open>
  On a string that begins with the digits of the hours, the parser reads the three fields
  and adds them up, rounding after each operation.
\<close>

lemma iOptron_ParseRA_fields:
  assumes H: "\<forall>c\<in>set H. isdigit c" "positional_value H < 2 ^ 31"
    and M: "\<forall>c\<in>set M. isdigit c" "positional_value M < 2 ^ 31"
    and S: "\<forall>c\<in>set S. isdigit c" "positional_value S < 2 ^ 31"
    and t: "field_end t" "last t = CHR ''#''"
  shows "iOptron_ParseRA (H @ CHR '':'' # M @ CHR '':'' # S @ t) =
           norm_down (dbl_add (dbl_add (real_of_int (positional_value H))
               (dbl_div (dbl_mul 1 (real_of_int (positional_value M))) 60))
               (dbl_div (dbl_mul 1 (real_of_int (positional_value S))) 3600)) \<bind> norm_up"
proof -
  from t have ne: "t \<noteq> []" by (simp add: field_end_def)
  have v3: "CheckForValidResponse (H @ CHR '':'' # M @ CHR '':'' # S @ t) = Some True"
    using ne t(2) by (intro CheckForValidResponse_valid) simp_all
  have stopc: "\<And>u. CHR '':'' # u = [] \<or> \<not> isdigit (hd (CHR '':'' # u))"
    by (simp add: isdigit_def)
  show ?thesis
    by (simp add: iOptron_ParseRA_def v3 atoi_field [OF H(1) _ H(2)] atoi_field [OF M(1) _ M(2)]
        atoi_field [OF S(1) t(1) S(2)] skip_digits_field [OF H(1) stopc]
        skip_digits_field [OF M(1) stopc] Let_def)
qed

text \<open>
  The facts that let the simplifier run the parsers on a given string: first those that
  read the fields, then those that add them up.
\<close>

lemmas parser_eval =
  iOptron_ParseRA_def iOptron_ParseDegMinSec_def CheckForValidResponse_def rd_def atoi_def
  strtol_val_def isspace_def isdigit_def deref_def Let_def

lemmas hours_eval = norm_down.simps norm_up.simps binary64_eval

text \<open>
  On strings without a sign the parser gives what the claim says: 12.5 for \<^verbatim>\<open>12:30:00#\<close>,
  1.5 for the raw value 25.5, and 0 for a field that is not there. The sum is a sum of
  doubles: for \<^verbatim>\<open>21:122:3480#\<close> it is the double next below 24, which is in the range
  already.
\<close>

lemma iOptron_ParseRA_unsigned:
  "iOptron_ParseRA ''12:30:00#'' = Some (25 / 2) \<and>
   iOptron_ParseRA ''25:30:00#'' = Some (3 / 2) \<and>
   iOptron_ParseRA ''25:30#'' = Some (3 / 2) \<and>
   iOptron_ParseRA ''25#'' = Some 1 \<and>
   iOptron_ParseRA ''21:122:3480#'' = Some (24 - 1 / 2 ^ 48)"
  apply (simp add: parser_eval)
  apply (simp add: hours_eval)
  done

text \<open>
  Claim C9 asks that the RA parser returns hours + minutes/60 + seconds/3600, brought into
  the range from 0 to 24. The generic response processor hands the parser only frames
  that begin with a sign. On such a frame \<^verbatim>\<open>atoi\<close> reads the sign and the hours, but the
  loop that steps over the digits stops at the sign, so the parser never finds the \<^verbatim>\<open>:\<close>
  and reads neither minutes nor seconds: \<^verbatim>\<open>+12:30:00#\<close> gives 12 hours, not 12.5, and
  the processor stores 12 as the right ascension. The declination parser steps over the
  sign first and reads all three fields of \<^verbatim>\<open>+12*30:00#\<close>.
\<close>

theorem signed_frame_minutes_not_read:
  "iOptron_ParseRA ''+12:30:00#'' = Some 12 \<and>
   Process_iOptronResponse ''+12:30:00#'' connected_state =
     Some (True, connected_state\<lparr>cTelescopeRA_String := ''+12:30:00#'', RightAscension := 12\<rparr>) \<and>
   iOptron_ParseRA ''12:30:00#'' = Some (25 / 2) \<and>
   iOptron_ParseDegMinSec ''+12*30:00#'' = Some (25 / 2)"
  apply (simp add: Process_iOptronResponse_def Process_RA_Response_def parser_eval)
  apply (simp add: hours_eval)
  done

subsection \<open>The generic response processor\<close>

lemma Process_RA_Response_keeps_declination:
  assumes "Process_RA_Response s st = Some (v, st')"
  shows "Declination st' = Declination st \<and> cTelescopeDEC_String st' = cTelescopeDEC_String st"
  using assms
  by (auto simp: Process_RA_Response_def Let_def split: bind_splits if_splits)

lemma Process_iOptronResponse_valid:
  assumes "s \<noteq> []" and "last s = CHR ''#''"
  shows "Process_iOptronResponse s st =
     (if hd s = CHR ''+'' \<or> hd s = CHR ''-'' then
        (if CHR '':'' \<in> set s then Process_RA_Response s st
         else if CHR ''*'' \<in> set s then Process_DEC_Response s st
         else Some (True, st))
      else Some (True, st))"
proof -
  have v: "CheckForValidResponse s = Some True"
    using assms by (rule CheckForValidResponse_valid)
  have t: "take (Suc 0) s = [hd s]" using assms(1) by (cases s) simp_all
  have ra: "Process_RA_Response s st \<bind> (\<lambda>(_, st). Some (True, st)) = Process_RA_Response s st"
    by (auto simp: Process_RA_Response_def v Let_def split: bind_splits)
  have dec: "Process_DEC_Response s st \<bind> (\<lambda>(_, st). Some (True, st)) = Process_DEC_Response s st"
    by (auto simp: Process_DEC_Response_def v Let_def split: bind_splits)
  show ?thesis
    by (simp add: Process_iOptronResponse_def v t ra dec)
qed

text \<open>
  Claim C10. A frame that passes the validity check reaches a coordinate parser only
  when its first character is \<^verbatim>\<open>+\<close> or \<^verbatim>\<open>-\<close>; otherwise the state is returned as it
  was. Among the signed frames every one that contains a \<^verbatim>\<open>:\<close> is processed by the RA
  processor, also when it contains a \<^verbatim>\<open>*\<close>, and neither the declination nor its stored
  string changes. Only a signed frame with \<^verbatim>\<open>*\<close> and without \<^verbatim>\<open>:\<close> is processed by the
  DEC processor. So a frame of the shape sDD*MM:SS# goes to the RA parser, and a frame of
  the shape HH:MM:SS# without a sign goes to neither and leaves the coordinates alone.
\<close>

theorem dispatcher_routes_by_sign_then_colon:
  assumes "s \<noteq> []" and "last s = CHR ''#''"
  shows "(hd s \<noteq> CHR ''+'' \<and> hd s \<noteq> CHR ''-'' \<longrightarrow> Process_iOptronResponse s st = Some (True, st)) \<and>
    ((hd s = CHR ''+'' \<or> hd s = CHR ''-'') \<and> CHR '':'' \<in> set s \<longrightarrow>
       Process_iOptronResponse s st = Process_RA_Response s st \<and>
       (\<forall>v st'. Process_iOptronResponse s st = Some (v, st') \<longrightarrow>
          Declination st' = Declination st \<and> cTelescopeDEC_String st' = cTelescopeDEC_String st)) \<and>
    ((hd s = CHR ''+'' \<or> hd s = CHR ''-'') \<and> CHR '':'' \<notin> set s \<and> CHR ''*'' \<in> set s \<longrightarrow>
       Process_iOptronResponse s st = Process_DEC_Response s st) \<and>
    ((hd s = CHR ''+'' \<or> hd s = CHR ''-'') \<and> CHR '':'' \<notin> set s \<and> CHR ''*'' \<notin> set s \<longrightarrow>
       Process_iOptronResponse s st = Some (True, st))"
  unfolding Process_iOptronResponse_valid [OF assms]
  using Process_RA_Response_keeps_declination [of s st]
  by auto

theorem dispatcher_routes_by_sign_then_colon_witness:
  "Process_iOptronResponse ''+45*30:15#'' connected_state =
     Some (True, connected_state\<lparr>cTelescopeRA_String := ''+45*30:15#'', RightAscension := 21\<rparr>) \<and>
   Process_iOptronResponse ''12:30:00#'' connected_state = Some (True, connected_state) \<and>
   Process_iOptronResponse ''-45*30#'' connected_state =
     Some (True, connected_state\<lparr>cTelescopeDEC_String := ''-45*30#'', Declination := - 91 / 2\<rparr>)"
proof (intro conjI)
  have "(hd ''+45*30:15#'' = CHR ''+'' \<or> hd ''+45*30:15#'' = CHR ''-'') \<and>
        CHR '':'' \<in> set ''+45*30:15#''"
    by simp
  moreover have "''+45*30:15#'' \<noteq> []" and "last ''+45*30:15#'' = CHR ''#''"
    by simp_all
  ultimately have "Process_iOptronResponse ''+45*30:15#'' connected_state =
      Process_RA_Response ''+45*30:15#'' connected_state"
    using dispatcher_routes_by_sign_then_colon [of "''+45*30:15#''" connected_state] by blast
  also have "\<dots> = Some (True,
      connected_state\<lparr>cTelescopeRA_String := ''+45*30:15#'', RightAscension := 21\<rparr>)"
    apply (simp add: Process_RA_Response_def parser_eval)
    apply (simp add: hours_eval)
    done
  finally show "Process_iOptronResponse ''+45*30:15#'' connected_state =
      Some (True, connected_state\<lparr>cTelescopeRA_String := ''+45*30:15#'', RightAscension := 21\<rparr>)" .
next
  have "hd ''12:30:00#'' \<noteq> CHR ''+'' \<and> hd ''12:30:00#'' \<noteq> CHR ''-''"
    by simp
  moreover have "''12:30:00#'' \<noteq> []" and "last ''12:30:00#'' = CHR ''#''"
    by simp_all
  ultimately show "Process_iOptronResponse ''12:30:00#'' connected_state =
      Some (True, connected_state)"
    using dispatcher_routes_by_sign_then_colon [of "''12:30:00#''" connected_state] by blast
next
  have "(hd ''-45*30#'' = CHR ''+'' \<or> hd ''-45*30#'' = CHR ''-'') \<and>
        CHR '':'' \<notin> set ''-45*30#'' \<and> CHR ''*'' \<in> set ''-45*30#''"
    by simp
  moreover have "''-45*30#'' \<noteq> []" and "last ''-45*30#'' = CHR ''#''"
    by simp_all
  ultimately have "Process_iOptronResponse ''-45*30#'' connected_state =
      Process_DEC_Response ''-45*30#'' connected_state"
    using dispatcher_routes_by_sign_then_colon [of "''-45*30#''" connected_state] by blast
  also have "\<dots> = Some (True,
      connected_state\<lparr>cTelescopeDEC_String := ''-45*30#'', Declination := - 91 / 2\<rparr>)"
    apply (simp add: Process_DEC_Response_def parser_eval)
    apply (simp add: hours_eval)
    done
  finally show "Process_iOptronResponse ''-45*30#'' connected_state =
      Some (True, connected_state\<lparr>cTelescopeDEC_String := ''-45*30#'', Declination := - 91 / 2\<rparr>)" .
qed

subsection \<open>A position query that fails\<close>

text \<open>
  A reply to \<^verbatim>\<open>:GEP#\<close> that fails the validity check: the counter goes up by one, the
  position is marked not valid and the stored coordinates stay.
\<close>

lemma SendCmdsPeriodic_invalid_reply:
  assumes "cTelescopeConnectionOpen st" and "descriptor_valid st" and "mount '':GEP#'' \<noteq> []"
    and "CheckForValidResponse (c_str (mount '':GEP#'')) = Some False"
  shows "\<exists>st'. SendCmdsPeriodic mount st = Some (False, st') \<and>
     cIOptron_CommErrCnt st' = cIOptron_CommErrCnt st + 1 \<and>
     \<not> cTelescopeInfoValid st' \<and>
     RightAscension st' = RightAscension st \<and> Declination st' = Declination st"
proof -
  define st1 where "st1 = st\<lparr>cIOptron_CommErrCnt := cIOptron_CommErrCnt st + 1,
     cTelescopeInfoValid := False\<rparr>"
  obtain v st2 where gls: "Process_GLS_Response (c_str (mount '':GLS#'')) st1 = Some (v, st2)"
    and keep: "RightAscension st2 = RightAscension st1" "Declination st2 = Declination st1"
      "cIOptron_CommErrCnt st2 = cIOptron_CommErrCnt st1"
      "cTelescopeInfoValid st2 = cTelescopeInfoValid st1"
    using Process_GLS_Response_keeps_position [of "c_str (mount '':GLS#'')" st1] by blast
  have dv: "descriptor_valid st1" using assms(2) by (simp add: descriptor_valid_def st1_def)
  have "SendCmdsPeriodic mount st =
      Some (False, if mount '':GLS#'' = [] then st1 else st2)"
    using assms dv gls Process_GEP_Response_invalid [OF assms(4), of st]
    by (simp add: SendCmdsPeriodic_def iOptron_SendCommand_def Let_def st1_def [symmetric])
  then show ?thesis using keep by (auto simp: st1_def)
qed

text \<open>
  No reply to \<^verbatim>\<open>:GEP#\<close> at all: the counter goes up by one and the stored coordinates
  stay, but \<^verbatim>\<open>cTelescopeInfoValid\<close> is not written and keeps the value it had.
\<close>

lemma SendCmdsPeriodic_no_reply:
  assumes "cTelescopeConnectionOpen st" and "descriptor_valid st" and "mount '':GEP#'' = []"
  shows "\<exists>st'. SendCmdsPeriodic mount st = Some (False, st') \<and>
     cIOptron_CommErrCnt st' = cIOptron_CommErrCnt st + 1 \<and>
     cTelescopeInfoValid st' = cTelescopeInfoValid st \<and>
     RightAscension st' = RightAscension st \<and> Declination st' = Declination st"
proof -
  define st1 where "st1 = st\<lparr>cIOptron_CommErrCnt := cIOptron_CommErrCnt st + 1\<rparr>"
  obtain v st2 where gls: "Process_GLS_Response (c_str (mount '':GLS#'')) st1 = Some (v, st2)"
    and keep: "RightAscension st2 = RightAscension st1" "Declination st2 = Declination st1"
      "cIOptron_CommErrCnt st2 = cIOptron_CommErrCnt st1"
      "cTelescopeInfoValid st2 = cTelescopeInfoValid st1"
    using Process_GLS_Response_keeps_position [of "c_str (mount '':GLS#'')" st1] by blast
  have dv: "descriptor_valid st1" using assms(2) by (simp add: descriptor_valid_def st1_def)
  have "SendCmdsPeriodic mount st =
      Some (False, if mount '':GLS#'' = [] then st1 else st2)"
    using assms dv gls
    by (simp add: SendCmdsPeriodic_def iOptron_SendCommand_def Let_def st1_def [symmetric])
  then show ?thesis using keep by (auto simp: st1_def)
qed

text \<open>
  Claim C6 asks that a poll cycle whose \<^verbatim>\<open>:GEP#\<close> query yields no reply bytes, or a
  reply that fails the validity check, raises the error counter, marks the position not
  valid and keeps the stored coordinates. The code does not mark the position not valid
  when there is no reply: run on a driver whose position is marked valid, with a mount
  that answers nothing, the cycle returns false and counts the error, and
  \<^verbatim>\<open>cTelescopeInfoValid\<close> is still true.
\<close>

theorem no_reply_leaves_position_marked_valid:
  "SendCmdsPeriodic (\<lambda>cmd. []) (connected_state\<lparr>cTelescopeInfoValid := True\<rparr>) =
     Some (False, connected_state\<lparr>cTelescopeInfoValid := True, cIOptron_CommErrCnt := 1\<rparr>)"
  by (simp add: SendCmdsPeriodic_def iOptron_SendCommand_def descriptor_valid_def
      connected_state_def c_str_def)

end
